theory Spec2Isabelle
  imports Main
begin

section \<open>JavaScript string primitives\<close>

text \<open>
  A JavaScript string is a sequence of code units. The model uses \<^typ>\<open>string\<close>, so a
  character is a code unit in the range 0..255; the character classes below are the
  JavaScript ones restricted to that range.
\<close>

definition isSpace :: "char \<Rightarrow> bool" where
  \<comment> \<open>the class \<open>\s\<close>, which is also what \<open>trim\<close> strips: TAB, LF, VT, FF, CR, SP, NBSP\<close>
  "isSpace c = (c = CHR 0x20 \<or> c = CHR 0x09 \<or> c = CHR 0x0A \<or> c = CHR 0x0B
                \<or> c = CHR 0x0C \<or> c = CHR 0x0D \<or> c = CHR 0xA0)"

definition isLineTerminator :: "char \<Rightarrow> bool" where
  \<comment> \<open>what the regular expression \<open>.\<close> refuses\<close>
  "isLineTerminator c = (c = CHR 0x0A \<or> c = CHR 0x0D)"

definition isDigit :: "char \<Rightarrow> bool" where
  \<comment> \<open>the class \<open>\d\<close>\<close>
  "isDigit c = (48 \<le> (of_char c :: nat) \<and> (of_char c :: nat) \<le> 57)"

definition isAlpha :: "char \<Rightarrow> bool" where
  \<comment> \<open>\<open>[a-zA-Z]\<close>\<close>
  "isAlpha c = ((97 \<le> (of_char c :: nat) \<and> (of_char c :: nat) \<le> 122)
                \<or> (65 \<le> (of_char c :: nat) \<and> (of_char c :: nat) \<le> 90))"

definition isWordChar :: "char \<Rightarrow> bool" where
  \<comment> \<open>the class \<open>\w\<close>\<close>
  "isWordChar c = (isAlpha c \<or> isDigit c \<or> c = CHR ''_'')"

definition trim :: "string \<Rightarrow> string" where
  "trim s = rev (dropWhile isSpace (rev (dropWhile isSpace s)))"

definition startsWith :: "string \<Rightarrow> string \<Rightarrow> bool" where
  "startsWith s p = (take (length p) s = p)"

definition endsWith :: "string \<Rightarrow> string \<Rightarrow> bool" where
  "endsWith s p = (length p \<le> length s \<and> drop (length s - length p) s = p)"

fun includesStr :: "string \<Rightarrow> string \<Rightarrow> bool" where
  "includesStr [] p = (p = [])"
| "includesStr (c # cs) p = (startsWith (c # cs) p \<or> includesStr cs p)"

text \<open>\<open>s.split(sep)\<close> for a string separator: cut at every occurrence, left to right.\<close>

function splitLoop :: "string \<Rightarrow> string \<Rightarrow> string \<Rightarrow> string list" where
  "splitLoop sep cur [] = [cur]"
| "splitLoop sep cur (c # cs) =
     (if sep \<noteq> [] \<and> startsWith (c # cs) sep
      then cur # splitLoop sep [] (drop (length sep) (c # cs))
      else splitLoop sep (cur @ [c]) cs)"
  by pat_completeness auto
termination
  by (relation "measure (\<lambda>(sep, cur, s). length s)") auto

definition split :: "string \<Rightarrow> string \<Rightarrow> string list" where
  "split s sep = (if sep = [] then map (\<lambda>c. [c]) s else splitLoop sep [] s)"

fun join :: "string list \<Rightarrow> string \<Rightarrow> string" where
  "join [] sep = []"
| "join [x] sep = x"
| "join (x # y # ys) sep = x @ sep @ join (y # ys) sep"


section \<open>The data model (types/openfga)\<close>

text \<open>
  The source's interfaces are objects with optional fields; an optional field is an
  \<^typ>\<open>'a option\<close>. A \<open>Userset\<close> is an object whose six fields are all optional, so
  a node may populate none or several of them. \<open>Record<string, never>\<close> (the value
  \<open>{}\<close> of \<open>this\<close> and \<open>wildcard\<close>) is \<^typ>\<open>unit\<close>.
\<close>

datatype ObjectRelation = ObjectRelation (or_object: "string option") (or_relation: "string option")

datatype TupleToUserset =
  TupleToUserset (tupleset: "ObjectRelation option") (ttu_computedUserset: "ObjectRelation option")

datatype Userset =
  Userset (us_this: "unit option") (us_computedUserset: "ObjectRelation option")
          (us_tupleToUserset: "TupleToUserset option") (us_union: "Usersets option")
          (us_intersection: "Usersets option") (us_difference: "Difference option")
and Usersets = Usersets (child: "Userset list option")
and Difference = Difference (base: "Userset option") (subtract: "Userset option")

record RelationReference =
  rr_type :: string
  rr_relation :: "string option"
  rr_wildcard :: "unit option"
  rr_condition :: "string option"

record RelationMetadata =
  directly_related_user_types :: "RelationReference list option"

text \<open>
  A JavaScript object used as a dictionary (\<open>Record<string, T>\<close>) is the list of its
  entries in the order \<open>Object.entries\<close> enumerates them: keys that are array indices
  first, in ascending numeric order, then the other keys in the order of their creation.
\<close>

type_synonym 'v jsObject = "(string \<times> 'v) list"

definition decimalValue :: "string \<Rightarrow> nat" where
  "decimalValue k = foldl (\<lambda>a c. 10 * a + (of_char c - 48)) 0 k"

definition isArrayIndex :: "string \<Rightarrow> bool" where
  \<comment> \<open>the canonical decimal form of an integer below \<open>2^32 - 1\<close>\<close>
  "isArrayIndex k = (k \<noteq> [] \<and> list_all isDigit k \<and> (if hd k = CHR ''0'' then k = ''0'' else True)
                     \<and> decimalValue k < 4294967295)"

fun insertIndexKey :: "string \<Rightarrow> 'v \<Rightarrow> 'v jsObject \<Rightarrow> 'v jsObject" where
  "insertIndexKey k v [] = [(k, v)]"
| "insertIndexKey k v ((k', v') # es) =
     (if isArrayIndex k' \<and> decimalValue k' < decimalValue k
      then (k', v') # insertIndexKey k v es
      else (k, v) # (k', v') # es)"

definition objSet :: "'v jsObject \<Rightarrow> string \<Rightarrow> 'v \<Rightarrow> 'v jsObject" where
  \<comment> \<open>\<open>obj[k] = v\<close> on an object created by \<open>{}\<close>, for an object \<open>v\<close>. Assigning to
      \<open>__proto__\<close> replaces the prototype and creates no entry.\<close>
  "objSet obj k v =
     (if k = ''__proto__'' then obj
      else if k \<in> fst ` set obj then map (\<lambda>(k', v'). if k' = k then (k', v) else (k', v')) obj
      else if isArrayIndex k then insertIndexKey k v obj
      else obj @ [(k, v)])"

record Metadata =
  md_relations :: "RelationMetadata jsObject option"

record TypeDefinition =
  td_type :: string
  td_relations :: "Userset jsObject option"
  td_metadata :: "Metadata option"

datatype ConditionParamTypeRef =
  ConditionParamTypeRef (type_name: string) (generic_types: "ConditionParamTypeRef list option")

record Condition =
  c_name :: string
  c_expression :: string
  c_parameters :: "ConditionParamTypeRef jsObject option"

text \<open>\<open>AuthorizationModel\<close> without its server-assigned \<open>id\<close>, which no function here reads.\<close>

record AuthorizationModel =
  schema_version :: string
  type_definitions :: "TypeDefinition list"
  conditions :: "Condition jsObject option"

text \<open>The object literals the parser builds.\<close>

definition emptyUserset :: Userset where
  \<comment> \<open>\<open>{}\<close>\<close>
  "emptyUserset = Userset None None None None None None"

definition thisUserset :: Userset where
  \<comment> \<open>\<open>{ this: {} }\<close>\<close>
  "thisUserset = Userset (Some ()) None None None None None"

definition computedUserset :: "string \<Rightarrow> Userset" where
  \<comment> \<open>\<open>{ computedUserset: { relation } }\<close>\<close>
  "computedUserset r = Userset None (Some (ObjectRelation None (Some r))) None None None None"

definition tupleToUsersetOf :: "string \<Rightarrow> string \<Rightarrow> Userset" where
  \<comment> \<open>\<open>{ tupleToUserset: { tupleset: { relation: t }, computedUserset: { relation: c } } }\<close>\<close>
  "tupleToUsersetOf t c =
     Userset None None
       (Some (TupleToUserset (Some (ObjectRelation None (Some t))) (Some (ObjectRelation None (Some c)))))
       None None None"

definition unionOf :: "Userset list \<Rightarrow> Userset" where
  \<comment> \<open>\<open>{ union: { child } }\<close>\<close>
  "unionOf cs = Userset None None None (Some (Usersets (Some cs))) None None"

definition intersectionOf :: "Userset list \<Rightarrow> Userset" where
  \<comment> \<open>\<open>{ intersection: { child } }\<close>\<close>
  "intersectionOf cs = Userset None None None None (Some (Usersets (Some cs))) None"

definition differenceOf :: "Userset \<Rightarrow> Userset \<Rightarrow> Userset" where
  \<comment> \<open>\<open>{ difference: { base, subtract } }\<close>\<close>
  "differenceOf b s = Userset None None None None None (Some (Difference (Some b) (Some s)))"

section \<open>The regular expressions of utils/dsl-parser\<close>

text \<open>
  Each regular expression is a function from the subject string to its capture groups.
  None of them is ambiguous: the character classes that follow one another are disjoint,
  so the greedy match is the only one, and the functions below compute it with
  \<^const>\<open>takeWhile\<close> and \<^const>\<open>dropWhile\<close>.
\<close>

definition isWord :: "string \<Rightarrow> bool" where
  \<comment> \<open>\<open>/^\w+$/\<close>\<close>
  "isWord s = (s \<noteq> [] \<and> list_all isWordChar s)"

definition isDigits :: "string \<Rightarrow> bool" where
  \<comment> \<open>\<open>/^\d+$/\<close>\<close>
  "isDigits s = (s \<noteq> [] \<and> list_all isDigit s)"

definition isIdentifier :: "string \<Rightarrow> bool" where
  \<comment> \<open>\<open>/^[a-zA-Z_][a-zA-Z0-9_]*$/\<close>\<close>
  "isIdentifier s = (case s of [] \<Rightarrow> False | c # cs \<Rightarrow> (isAlpha c \<or> c = CHR ''_'') \<and> list_all isWordChar cs)"

definition schemaMatch :: "string \<Rightarrow> string option" where
  \<comment> \<open>\<open>/^schema\s+(\d+\.\d+)$/\<close>, the capture\<close>
  "schemaMatch t =
     (if startsWith t ''schema'' then
        (let r = drop 6 t; v = dropWhile isSpace r; r1 = dropWhile isDigit v in
         if takeWhile isSpace r \<noteq> [] \<and> takeWhile isDigit v \<noteq> [] \<and> startsWith r1 ''.''
            \<and> isDigits (drop 1 r1)
         then Some v else None)
      else None)"

definition typeMatch :: "string \<Rightarrow> string option" where
  \<comment> \<open>\<open>/^type\s+(\w+)$/\<close>, the capture\<close>
  "typeMatch t =
     (if startsWith t ''type'' then
        (let r = drop 4 t; n = dropWhile isSpace r in
         if takeWhile isSpace r \<noteq> [] \<and> isWord n then Some n else None)
      else None)"

definition defineMatch :: "string \<Rightarrow> (string \<times> string) option" where
  \<comment> \<open>\<open>/^define\s+(\w+)\s*:\s*(.+)$/\<close>, the two captures. After the colon \<open>\s*\<close> takes
      all the white space it can; when nothing follows the white space, it gives its last
      character back to \<open>.+\<close>.\<close>
  "defineMatch t =
     (if startsWith t ''define'' then
        (let r = drop 6 t; r1 = dropWhile isSpace r;
             name = takeWhile isWordChar r1; r2 = dropWhile isSpace (dropWhile isWordChar r1);
             w = takeWhile isSpace (drop 1 r2); e = dropWhile isSpace (drop 1 r2) in
         if takeWhile isSpace r \<noteq> [] \<and> name \<noteq> [] \<and> startsWith r2 '':'' then
           (if e \<noteq> [] then (if list_ex isLineTerminator e then None else Some (name, e))
            else if w \<noteq> [] \<and> \<not> isLineTerminator (last w) then Some (name, [last w])
            else None)
         else None)
      else None)"

fun bracketMatch :: "string \<Rightarrow> string option" where
  \<comment> \<open>\<open>/\[([^\]]+)\]/\<close>, searched from the left; the capture of the first match\<close>
  "bracketMatch [] = None"
| "bracketMatch (c # cs) =
     (if c = CHR ''['' \<and> takeWhile (\<lambda>x. x \<noteq> CHR '']'') cs \<noteq> []
         \<and> dropWhile (\<lambda>x. x \<noteq> CHR '']'') cs \<noteq> []
      then Some (takeWhile (\<lambda>x. x \<noteq> CHR '']'') cs)
      else bracketMatch cs)"

definition bracketRestMatch :: "string \<Rightarrow> (string \<times> string) option" where
  \<comment> \<open>\<open>/^\[([^\]]+)\](.*)$/\<close>, the two captures\<close>
  "bracketRestMatch t =
     (case t of
        [] \<Rightarrow> None
      | c # cs \<Rightarrow>
          (let inner = takeWhile (\<lambda>x. x \<noteq> CHR '']'') cs; r = dropWhile (\<lambda>x. x \<noteq> CHR '']'') cs in
           if c = CHR ''['' \<and> inner \<noteq> [] \<and> r \<noteq> [] \<and> \<not> list_ex isLineTerminator (drop 1 r)
           then Some (inner, drop 1 r) else None))"

definition conditionMatch :: "string \<Rightarrow> (string \<times> string) option" where
  \<comment> \<open>\<open>/^condition\s+(\w+)\s*\(([^)]*)\)\s*\{?\s*$/\<close>, the two captures\<close>
  "conditionMatch t =
     (if startsWith t ''condition'' then
        (let r = drop 9 t; r1 = dropWhile isSpace r;
             name = takeWhile isWordChar r1; r2 = dropWhile isSpace (dropWhile isWordChar r1);
             params = takeWhile (\<lambda>x. x \<noteq> CHR '')'') (drop 1 r2);
             r3 = dropWhile (\<lambda>x. x \<noteq> CHR '')'') (drop 1 r2);
             r4 = dropWhile isSpace (drop 1 r3);
             r5 = (if startsWith r4 ''{'' then drop 1 r4 else r4) in
         if takeWhile isSpace r \<noteq> [] \<and> name \<noteq> [] \<and> startsWith r2 ''('' \<and> r3 \<noteq> []
            \<and> dropWhile isSpace r5 = []
         then Some (name, params) else None)
      else None)"

definition hashMatch :: "string \<Rightarrow> (string \<times> string) option" where
  \<comment> \<open>\<open>/^(\w+)#(\w+)$/\<close>\<close>
  "hashMatch t =
     (let a = takeWhile isWordChar t; r = dropWhile isWordChar t in
      if a \<noteq> [] \<and> startsWith r ''#'' \<and> isWord (drop 1 r) then Some (a, drop 1 r) else None)"

definition condMatch :: "string \<Rightarrow> (string \<times> string) option" where
  \<comment> \<open>\<open>/^(\w+)\s+with\s+(\w+)$/\<close>\<close>
  "condMatch t =
     (let a = takeWhile isWordChar t; r = dropWhile isWordChar t; r1 = dropWhile isSpace r;
          r2 = drop 4 r1; b = dropWhile isSpace r2 in
      if a \<noteq> [] \<and> takeWhile isSpace r \<noteq> [] \<and> startsWith r1 ''with''
         \<and> takeWhile isSpace r2 \<noteq> [] \<and> isWord b
      then Some (a, b) else None)"

definition paramMatch :: "string \<Rightarrow> (string \<times> string) option" where
  \<comment> \<open>\<open>/^(\w+)\s*:\s*(\w+)$/\<close>\<close>
  "paramMatch t =
     (let a = takeWhile isWordChar t; r = dropWhile isSpace (dropWhile isWordChar t);
          b = dropWhile isSpace (drop 1 r) in
      if a \<noteq> [] \<and> startsWith r '':'' \<and> isWord b then Some (a, b) else None)"


section \<open>The parser (utils/dsl-parser)\<close>

text \<open>
  What a call can throw: \<open>RangeError\<close> when the recursion exhausts the call stack,
  \<open>TypeError\<close> when a method is called on \<open>undefined\<close>.
\<close>

datatype error = RangeError | TypeError

fun mapE :: "('a \<Rightarrow> error + 'b) \<Rightarrow> 'a list \<Rightarrow> error + 'b list" where
  "mapE f [] = Inr []"
| "mapE f (x # xs) =
     (case f x of
        Inl e \<Rightarrow> Inl e
      | Inr y \<Rightarrow> (case mapE f xs of Inl e \<Rightarrow> Inl e | Inr ys \<Rightarrow> Inr (y # ys)))"

text \<open>
  The loop of \<open>splitByOperator\<close>, on the rest \<open>str.slice(i)\<close> of the string. Both call
  sites pass a non-empty operator; with an empty one the source's loop would not advance,
  and the guard \<open>operator \<noteq> []\<close> keeps that case out of the third branch.
\<close>

function splitByOperatorLoop ::
  "string \<Rightarrow> string list \<Rightarrow> string \<Rightarrow> int \<Rightarrow> string \<Rightarrow> string list \<times> string" where
  "splitByOperatorLoop operator parts current bracketDepth [] = (parts, current)"
| "splitByOperatorLoop operator parts current bracketDepth (c # cs) =
     (if c = CHR ''['' then splitByOperatorLoop operator parts (current @ [c]) (bracketDepth + 1) cs
      else if c = CHR '']'' then splitByOperatorLoop operator parts (current @ [c]) (bracketDepth - 1) cs
      else if operator \<noteq> [] \<and> bracketDepth = 0 \<and> startsWith (c # cs) operator
        then splitByOperatorLoop operator (parts @ [trim current]) [] bracketDepth
               (drop (length operator) (c # cs))
      else splitByOperatorLoop operator parts (current @ [c]) bracketDepth cs)"
  by pat_completeness auto
termination
  by (relation "measure (\<lambda>(operator, parts, current, bracketDepth, s). length s)") auto

definition splitByOperator :: "string \<Rightarrow> string \<Rightarrow> string list" where
  "splitByOperator str operator =
     (case splitByOperatorLoop operator [] [] 0 str of
        (parts, current) \<Rightarrow> if trim current \<noteq> [] then parts @ [trim current] else parts)"

text \<open>
  \<open>parseRelationDefinition\<close> calls itself on pieces of its argument, and nothing in the
  source makes the pieces smaller. The first argument of the model is the number of stack
  frames left: a call that finds none left throws \<open>RangeError\<close>. An element of
  \<open>parts\<close> that does not exist is \<open>undefined\<close>, whose \<open>trim\<close> throws \<open>TypeError\<close>.
\<close>

fun parseRelationDefinition :: "nat \<Rightarrow> string \<Rightarrow> error + Userset" where
  "parseRelationDefinition 0 definition = Inl RangeError"
| "parseRelationDefinition (Suc fuel) definition =
     (let trimmed = trim definition in
      if startsWith trimmed ''['' \<and> endsWith trimmed '']'' then Inr thisUserset
      else if includesStr trimmed '' or '' then
        (case mapE (\<lambda>p. parseRelationDefinition fuel p) (splitByOperator trimmed '' or '') of
           Inl e \<Rightarrow> Inl e
         | Inr cs \<Rightarrow> Inr (unionOf cs))
      else if includesStr trimmed '' and '' then
        (case mapE (\<lambda>p. parseRelationDefinition fuel p) (splitByOperator trimmed '' and '') of
           Inl e \<Rightarrow> Inl e
         | Inr cs \<Rightarrow> Inr (intersectionOf cs))
      else if includesStr trimmed '' but not '' then
        (case split trimmed '' but not '' of
           p0 # p1 # _ \<Rightarrow>
             (case parseRelationDefinition fuel p0 of
                Inl e \<Rightarrow> Inl e
              | Inr b \<Rightarrow>
                  (case parseRelationDefinition fuel p1 of
                     Inl e \<Rightarrow> Inl e
                   | Inr s \<Rightarrow> Inr (differenceOf b s)))
         | _ \<Rightarrow> Inl TypeError)
      else if includesStr trimmed ''->'' then
        (case split trimmed ''->'' of
           p0 # p1 # _ \<Rightarrow> Inr (tupleToUsersetOf (trim p0) (trim p1))
         | _ \<Rightarrow> Inl TypeError)
      else if isWord trimmed then Inr (computedUserset trimmed)
      else
        (case bracketRestMatch trimmed of
           Some (inner, rest0) \<Rightarrow>
             (let rest = trim rest0 in
              if rest = [] then Inr thisUserset
              else if startsWith rest ''or '' then
                (case parseRelationDefinition fuel (trim (drop 3 rest)) of
                   Inl e \<Rightarrow> Inl e
                 | Inr u \<Rightarrow> Inr (unionOf [thisUserset, u]))
              else Inr thisUserset)
         | None \<Rightarrow> Inr thisUserset))"

definition parseTypeReference :: "string \<Rightarrow> RelationReference" where
  "parseTypeReference typeStr =
     (let trimmed = trim typeStr in
      if endsWith trimmed '':*'' then
        \<lparr>rr_type = take (length trimmed - 2) trimmed, rr_relation = None,
         rr_wildcard = Some (), rr_condition = None\<rparr>
      else
        (case hashMatch trimmed of
           Some (t, r) \<Rightarrow> \<lparr>rr_type = t, rr_relation = Some r, rr_wildcard = None, rr_condition = None\<rparr>
         | None \<Rightarrow>
             (case condMatch trimmed of
                Some (t, c) \<Rightarrow>
                  \<lparr>rr_type = t, rr_relation = None, rr_wildcard = None, rr_condition = Some c\<rparr>
              | None \<Rightarrow>
                  \<lparr>rr_type = trimmed, rr_relation = None, rr_wildcard = None, rr_condition = None\<rparr>)))"

definition parseConditionParams :: "string \<Rightarrow> ConditionParamTypeRef jsObject option" where
  "parseConditionParams params =
     (if trim params = [] then None
      else
        (let result =
               foldl (\<lambda>result pair.
                        case paramMatch (trim pair) of
                          Some (n, t) \<Rightarrow> objSet result n (ConditionParamTypeRef t None)
                        | None \<Rightarrow> result)
                 [] (split params '','')
         in if result \<noteq> [] then Some result else None))"

record ParsedRelation =
  pr_name :: string
  pr_definition :: string
  pr_directTypes :: "string list"

record ParsedType =
  pt_name :: string
  pt_relations :: "ParsedRelation list"

record ParsedCondition =
  pc_name :: string
  pc_params :: string
  pc_expression :: string

record ParseResult =
  schemaVersion :: string
  types :: "ParsedType list"
  conditions_parsed :: "ParsedCondition list"

text \<open>The local variables of \<open>parseDSL\<close> that its loop over the lines reads and writes.\<close>

record ParserState =
  result :: ParseResult
  currentType :: "ParsedType option"
  inRelations :: bool
  inCondition :: bool
  currentCondition :: "ParsedCondition option"
  conditionBody :: "string list"

definition initialState :: ParserState where
  "initialState =
     \<lparr>result = \<lparr>schemaVersion = ''1.1'', types = [], conditions_parsed = []\<rparr>,
      currentType = None, inRelations = False, inCondition = False,
      currentCondition = None, conditionBody = []\<rparr>"

definition pushType :: "ParseResult \<Rightarrow> ParsedType option \<Rightarrow> ParseResult" where
  \<comment> \<open>\<open>if (currentType) result.types.push(currentType)\<close>\<close>
  "pushType r ct = (case ct of None \<Rightarrow> r | Some t \<Rightarrow> r\<lparr>types := types r @ [t]\<rparr>)"

text \<open>
  \<open>directTypes.push(...types)\<close> passes every element of \<open>types\<close> as one argument of a
  single call. A call with more arguments than the engine's stack takes throws
  \<open>RangeError\<close>; \<open>maxArguments\<close> is the number of arguments the call can take there.
\<close>

definition pushSpread :: "nat \<Rightarrow> 'a list \<Rightarrow> 'a list \<Rightarrow> error + 'a list" where
  \<comment> \<open>\<open>array.push(...items)\<close>\<close>
  "pushSpread maxArguments array items =
     (if maxArguments < length items then Inl RangeError else Inr (array @ items))"

definition extractDirectTypes :: "nat \<Rightarrow> string \<Rightarrow> error + string list" where
  "extractDirectTypes maxArguments definition =
     (case bracketMatch definition of
        None \<Rightarrow> Inr []
      | Some inner \<Rightarrow> pushSpread maxArguments [] (map trim (split inner '','')))"

definition conditionBodyLine :: "ParserState \<Rightarrow> string \<Rightarrow> ParserState" where
  \<comment> \<open>the last block of the loop body, \<open>if (inCondition && currentCondition)\<close>\<close>
  "conditionBodyLine st trimmed =
     (case currentCondition st of
        Some cc \<Rightarrow>
          if inCondition st then
            (if trimmed = ''}'' then
               st\<lparr>result := (result st)\<lparr>conditions_parsed :=
                      conditions_parsed (result st)
                        @ [cc\<lparr>pc_expression := trim (join (conditionBody st) ''\<newline>'')\<rparr>]\<rparr>,
                  currentCondition := None, inCondition := False, conditionBody := []\<rparr>
             else st\<lparr>conditionBody := conditionBody st @ [trimmed]\<rparr>)
          else st
      | None \<Rightarrow> st)"

definition conditionLine :: "ParserState \<Rightarrow> string \<Rightarrow> ParserState" where
  \<comment> \<open>from \<open>conditionMatch\<close> on\<close>
  "conditionLine st trimmed =
     (case conditionMatch trimmed of
        Some (n, ps) \<Rightarrow>
          st\<lparr>result := pushType (result st) (currentType st), currentType := None,
             inCondition := True,
             currentCondition := Some \<lparr>pc_name = n, pc_params = ps, pc_expression = []\<rparr>,
             conditionBody := []\<rparr>
      | None \<Rightarrow> conditionBodyLine st trimmed)"

definition defineLine :: "nat \<Rightarrow> ParserState \<Rightarrow> string \<Rightarrow> error + ParserState" where
  \<comment> \<open>from \<open>defineMatch\<close> on\<close>
  "defineLine maxArguments st trimmed =
     (case defineMatch trimmed of
        Some (relationName, d) \<Rightarrow>
          (case currentType st of
             Some ct \<Rightarrow>
               if inRelations st then
                 (let definition = trim d in
                  case extractDirectTypes maxArguments definition of
                    Inl e \<Rightarrow> Inl e
                  | Inr directTypes \<Rightarrow>
                      Inr (st\<lparr>currentType := Some (ct\<lparr>pt_relations := pt_relations ct
                             @ [\<lparr>pr_name = relationName, pr_definition = definition,
                                  pr_directTypes = directTypes\<rparr>]\<rparr>)\<rparr>))
               else Inr (conditionLine st trimmed)
           | None \<Rightarrow> Inr (conditionLine st trimmed))
      | None \<Rightarrow> Inr (conditionLine st trimmed))"

definition parseLine :: "nat \<Rightarrow> ParserState \<Rightarrow> string \<Rightarrow> error + ParserState" where
  \<comment> \<open>one iteration of the loop over \<open>lines\<close>\<close>
  "parseLine maxArguments st line =
     (let trimmed = trim line in
      if trimmed = [] \<or> startsWith trimmed ''#'' \<or> startsWith trimmed ''//'' then Inr st
      else if trimmed = ''model'' then Inr st
      else
        (case schemaMatch trimmed of
           Some v \<Rightarrow> Inr (st\<lparr>result := (result st)\<lparr>schemaVersion := v\<rparr>\<rparr>)
         | None \<Rightarrow>
             (case typeMatch trimmed of
                Some n \<Rightarrow>
                  Inr (st\<lparr>result := pushType (result st) (currentType st),
                          currentType := Some \<lparr>pt_name = n, pt_relations = []\<rparr>,
                          inRelations := False\<rparr>)
              | None \<Rightarrow>
                  if trimmed = ''relations'' then Inr (st\<lparr>inRelations := True\<rparr>)
                  else defineLine maxArguments st trimmed)))"

fun parseLoop :: "nat \<Rightarrow> ParserState \<Rightarrow> string list \<Rightarrow> error + ParserState" where
  \<comment> \<open>the loop over \<open>lines\<close>, left by the first iteration that throws\<close>
  "parseLoop maxArguments st [] = Inr st"
| "parseLoop maxArguments st (line # lines) =
     (case parseLine maxArguments st line of
        Inl e \<Rightarrow> Inl e
      | Inr st' \<Rightarrow> parseLoop maxArguments st' lines)"

definition parseLines :: "nat \<Rightarrow> string list \<Rightarrow> error + ParseResult" where
  \<comment> \<open>the loop, then \<open>// Don't forget the last type\<close>\<close>
  "parseLines maxArguments ls =
     (case parseLoop maxArguments initialState ls of
        Inl e \<Rightarrow> Inl e
      | Inr st \<Rightarrow> Inr (pushType (result st) (currentType st)))"

fun convertRelations ::
  "nat \<Rightarrow> ParsedRelation list \<Rightarrow> Userset jsObject \<times> RelationMetadata jsObject
     \<Rightarrow> error + (Userset jsObject \<times> RelationMetadata jsObject)" where
  "convertRelations fuel [] acc = Inr acc"
| "convertRelations fuel (rel # rels) (relations, metadata) =
     (case parseRelationDefinition fuel (pr_definition rel) of
        Inl e \<Rightarrow> Inl e
      | Inr u \<Rightarrow>
          convertRelations fuel rels
            (objSet relations (pr_name rel) u,
             if pr_directTypes rel \<noteq> []
             then objSet metadata (pr_name rel)
                    \<lparr>directly_related_user_types = Some (map parseTypeReference (pr_directTypes rel))\<rparr>
             else metadata))"

definition convertType :: "nat \<Rightarrow> ParsedType \<Rightarrow> error + TypeDefinition" where
  "convertType fuel type =
     (if pt_relations type \<noteq> [] then
        (case convertRelations fuel (pt_relations type) ([], []) of
           Inl e \<Rightarrow> Inl e
         | Inr (relations, metadata) \<Rightarrow>
             Inr \<lparr>td_type = pt_name type, td_relations = Some relations,
                  td_metadata = Some \<lparr>md_relations = Some metadata\<rparr>\<rparr>)
      else Inr \<lparr>td_type = pt_name type, td_relations = None, td_metadata = None\<rparr>)"

definition convertConditions :: "ParsedCondition list \<Rightarrow> Condition jsObject option" where
  "convertConditions conds =
     (if conds \<noteq> [] then
        Some (foldl (\<lambda>obj cond.
                objSet obj (pc_name cond)
                  \<lparr>c_name = pc_name cond, c_expression = pc_expression cond,
                   c_parameters = parseConditionParams (pc_params cond)\<rparr>) [] conds)
      else None)"

definition convertToJSON :: "nat \<Rightarrow> ParseResult \<Rightarrow> error + AuthorizationModel" where
  "convertToJSON fuel parsed =
     (case mapE (convertType fuel) (types parsed) of
        Inl e \<Rightarrow> Inl e
      | Inr typeDefinitions \<Rightarrow>
          Inr \<lparr>schema_version = schemaVersion parsed, type_definitions = typeDefinitions,
               conditions = convertConditions (conditions_parsed parsed)\<rparr>)"

text \<open>
  \<open>parseDSL\<close>, for a stack that takes \<open>fuel\<close> nested calls of
  \<open>parseRelationDefinition\<close> and \<open>maxArguments\<close> arguments in the spread call.
\<close>

definition parseDSL :: "nat \<Rightarrow> nat \<Rightarrow> string \<Rightarrow> error + AuthorizationModel" where
  "parseDSL fuel maxArguments dsl =
     (case parseLines maxArguments (split dsl ''\<newline>'') of
        Inl e \<Rightarrow> Inl e
      | Inr parsed \<Rightarrow> convertToJSON fuel parsed)"


section \<open>The serializers\<close>

text \<open>
  \<open>x || d\<close> on strings and arrays: the empty string is falsy, an array never is.
\<close>

definition relationOr :: "ObjectRelation option \<Rightarrow> string" where
  \<comment> \<open>\<open>x?.relation || ''\<close>\<close>
  "relationOr x = (case x of None \<Rightarrow> [] | Some r \<Rightarrow> (case or_relation r of None \<Rightarrow> [] | Some y \<Rightarrow> y))"

definition childrenOf :: "Usersets \<Rightarrow> Userset list" where
  \<comment> \<open>\<open>usersets.child || []\<close>\<close>
  "childrenOf us = (case child us of None \<Rightarrow> [] | Some cs \<Rightarrow> cs)"

definition orEmpty :: "Userset option \<Rightarrow> Userset" where
  \<comment> \<open>\<open>u || {}\<close>\<close>
  "orEmpty u = (case u of None \<Rightarrow> emptyUserset | Some x \<Rightarrow> x)"

definition formatTypeRef :: "RelationReference \<Rightarrow> string" where
  "formatTypeRef ref =
     (if rr_wildcard ref \<noteq> None then rr_type ref @ '':*''
      else if rr_relation ref \<noteq> None \<and> rr_relation ref \<noteq> Some [] then
        rr_type ref @ ''#'' @ (case rr_relation ref of Some r \<Rightarrow> r | None \<Rightarrow> [])
      else if rr_condition ref \<noteq> None \<and> rr_condition ref \<noteq> Some [] then
        rr_type ref @ '' with '' @ (case rr_condition ref of Some c \<Rightarrow> c | None \<Rightarrow> [])
      else rr_type ref)"

definition formatConditionParams :: "ConditionParamTypeRef jsObject option \<Rightarrow> string" where
  "formatConditionParams params =
     (case params of
        None \<Rightarrow> []
      | Some ps \<Rightarrow> join (map (\<lambda>(name, t). name @ '': '' @ type_name t) ps) '', '')"

definition typeStrOf :: "RelationReference list \<Rightarrow> string" where
  \<comment> \<open>the local \<open>typeStr\<close> of \<open>buildRelationDefinition\<close>\<close>
  "typeStrOf directTypes =
     (if directTypes \<noteq> [] then ''['' @ join (map formatTypeRef directTypes) '', '' @ '']'' else [])"

text \<open>
  Both serializers call themselves once for each level of nesting of the node. As for
  \<open>parseRelationDefinition\<close>, the first argument of the model is the number of stack
  frames left, and a call that finds none left throws \<open>RangeError\<close>.
\<close>

text \<open>Edit-seed mode (utils/dsl-parser).\<close>

fun buildRelationDefinition :: "nat \<Rightarrow> Userset \<Rightarrow> RelationReference list \<Rightarrow> error + string" where
  "buildRelationDefinition 0 userset directTypes = Inl RangeError"
| "buildRelationDefinition (Suc fuel) userset directTypes =
     (let typeStr = typeStrOf directTypes in
      if us_this userset \<noteq> None then Inr (if typeStr \<noteq> [] then typeStr else ''[user]'')
      else if us_computedUserset userset \<noteq> None then Inr (relationOr (us_computedUserset userset))
      else
        (case us_tupleToUserset userset of
           Some t \<Rightarrow> Inr (relationOr (tupleset t) @ ''->'' @ relationOr (ttu_computedUserset t))
         | None \<Rightarrow>
        (case us_union userset of
           Some un \<Rightarrow>
             (case mapE (\<lambda>(idx, c).
                           if us_this c \<noteq> None \<and> idx = (0 :: nat) \<and> typeStr \<noteq> [] then Inr typeStr
                           else buildRelationDefinition fuel c [])
                     (enumerate 0 (childrenOf un)) of
                Inl e \<Rightarrow> Inl e
              | Inr parts \<Rightarrow> Inr (join parts '' or ''))
         | None \<Rightarrow>
        (case us_intersection userset of
           Some isect \<Rightarrow>
             (case mapE (\<lambda>c. buildRelationDefinition fuel c []) (childrenOf isect) of
                Inl e \<Rightarrow> Inl e
              | Inr parts \<Rightarrow> Inr (join parts '' and ''))
         | None \<Rightarrow>
        (case us_difference userset of
           Some diff \<Rightarrow>
             (case buildRelationDefinition fuel (orEmpty (base diff)) [] of
                Inl e \<Rightarrow> Inl e
              | Inr b \<Rightarrow>
                  (case buildRelationDefinition fuel (orEmpty (subtract diff)) [] of
                     Inl e \<Rightarrow> Inl e
                   | Inr s \<Rightarrow> Inr (b @ '' but not '' @ s)))
         | None \<Rightarrow> Inr (if typeStr \<noteq> [] then typeStr else ''[user]''))))))"

definition directTypesOf :: "TypeDefinition \<Rightarrow> string \<Rightarrow> RelationReference list" where
  \<comment> \<open>\<open>typeDef.metadata?.relations?.[relationName]?.directly_related_user_types || []\<close>\<close>
  "directTypesOf typeDef relationName =
     (case td_metadata typeDef of
        None \<Rightarrow> []
      | Some md \<Rightarrow>
          (case md_relations md of
             None \<Rightarrow> []
           | Some rs \<Rightarrow>
               (case map_of rs relationName of
                  None \<Rightarrow> []
                | Some rm \<Rightarrow>
                    (case directly_related_user_types rm of None \<Rightarrow> [] | Some ds \<Rightarrow> ds))))"

definition defineLineOf :: "nat \<Rightarrow> TypeDefinition \<Rightarrow> string \<times> Userset \<Rightarrow> error + string" where
  \<comment> \<open>what one iteration of the loop over \<open>Object.entries(typeDef.relations)\<close> pushes\<close>
  "defineLineOf fuel typeDef entry =
     (case entry of (relationName, userset) \<Rightarrow>
        (case buildRelationDefinition fuel userset (directTypesOf typeDef relationName) of
           Inl e \<Rightarrow> Inl e
         | Inr definition \<Rightarrow> Inr (''    define '' @ relationName @ '': '' @ definition)))"

definition typeLines :: "nat \<Rightarrow> TypeDefinition \<Rightarrow> error + string list" where
  \<comment> \<open>what one iteration of the loop over \<open>type_definitions\<close> pushes\<close>
  "typeLines fuel typeDef =
     (case td_relations typeDef of
        None \<Rightarrow> Inr [''type '' @ td_type typeDef, []]
      | Some rels \<Rightarrow>
          if rels \<noteq> [] then
            (case mapE (defineLineOf fuel typeDef) rels of
               Inl e \<Rightarrow> Inl e
             | Inr defines \<Rightarrow> Inr ([''type '' @ td_type typeDef, ''  relations''] @ defines @ [[]]))
          else Inr [''type '' @ td_type typeDef, []])"

definition conditionLines :: "string \<times> Condition \<Rightarrow> string list" where
  \<comment> \<open>what one iteration of the loop over \<open>conditions\<close> pushes\<close>
  "conditionLines entry =
     (case entry of (condName, condition) \<Rightarrow>
        [''condition '' @ condName @ ''('' @ formatConditionParams (c_parameters condition) @ '') {'',
         ''  '' @ c_expression condition, ''}'', []])"

definition modelToDSLForEdit :: "nat \<Rightarrow> AuthorizationModel \<Rightarrow> error + string" where
  "modelToDSLForEdit fuel model =
     (case mapE (typeLines fuel) (type_definitions model) of
        Inl e \<Rightarrow> Inl e
      | Inr blocks \<Rightarrow>
          Inr (join ([''model'', ''  schema '' @ schema_version model, []]
                     @ concat blocks
                     @ (case conditions model of None \<Rightarrow> [] | Some cs \<Rightarrow> concat (map conditionLines cs)))
                 ''\<newline>''))"


section \<open>The live validator (components/ModelViewer, \<open>dslErrors\<close>)\<close>

record Diagnostic =
  d_line :: nat
  d_message :: string

record ValidatorState =
  hasModel :: bool
  hasSchema :: bool
  vCurrentType :: "string option"
  vInRelations :: bool
  errors :: "Diagnostic list"

definition dq :: string where
  \<comment> \<open>the double quote\<close>
  "dq = [CHR 0x22]"

fun replaceFirst :: "string \<Rightarrow> string \<Rightarrow> string \<Rightarrow> string" where
  \<comment> \<open>\<open>s.replace(p, r)\<close> for a string pattern: the first occurrence only\<close>
  "replaceFirst [] p r = (if p = [] then r else [])"
| "replaceFirst (c # cs) p r =
     (if startsWith (c # cs) p then r @ drop (length p) (c # cs) else c # replaceFirst cs p r)"

definition pushError :: "ValidatorState \<Rightarrow> bool \<Rightarrow> nat \<Rightarrow> string \<Rightarrow> ValidatorState" where
  \<comment> \<open>\<open>if (cond) errors.push({ line, message })\<close>\<close>
  "pushError st cond lineNum msg =
     (if cond then st\<lparr>errors := errors st @ [\<lparr>d_line = lineNum, d_message = msg\<rparr>]\<rparr> else st)"

definition validateDefine :: "ValidatorState \<Rightarrow> nat \<Rightarrow> string \<Rightarrow> ValidatorState" where
  "validateDefine st lineNum trimmed =
     (let st1 = pushError st (\<not> vInRelations st) lineNum
                  (dq @ ''define'' @ dq @ '' must be inside a '' @ dq @ ''relations'' @ dq @ '' block'');
          defineContent = replaceFirst trimmed ''define '' [] in
      if \<not> includesStr defineContent '':'' then
        pushError st1 True lineNum
          (''Invalid define syntax. Expected '' @ dq @ ''define name: expression'' @ dq)
      else
        (let name = (case split defineContent '':'' of n # _ \<Rightarrow> n | [] \<Rightarrow> []) in
         if trim name = [] then pushError st1 True lineNum ''Relation name is required''
         else pushError st1 (\<not> isIdentifier (trim name)) lineNum
                (''Invalid relation name '' @ dq @ trim name @ dq)))"

definition validateLine :: "ValidatorState \<Rightarrow> nat \<Rightarrow> string \<Rightarrow> ValidatorState" where
  \<comment> \<open>the callback of \<open>lines.forEach\<close>\<close>
  "validateLine st index line =
     (let trimmed = trim line; lineNum = index + 1 in
      if trimmed = [] \<or> startsWith trimmed ''#'' \<or> startsWith trimmed ''//'' then st
      else if trimmed = ''model'' then
        (pushError st (hasModel st) lineNum (''Duplicate '' @ dq @ ''model'' @ dq @ '' declaration''))
          \<lparr>hasModel := True\<rparr>
      else if startsWith trimmed ''schema '' then
        (let st1 = pushError st (\<not> hasModel st) lineNum
                     (dq @ ''schema'' @ dq @ '' must come after '' @ dq @ ''model'' @ dq);
             st2 = pushError st1 (hasSchema st) lineNum
                     (''Duplicate '' @ dq @ ''schema'' @ dq @ '' declaration'');
             version = trim (replaceFirst trimmed ''schema '' []);
             st3 = pushError st2 (version \<noteq> ''1.1'' \<and> version \<noteq> ''1.0'') lineNum
                     (''Invalid schema version '' @ dq @ version @ dq @ ''. Use '' @ dq @ ''1.1'' @ dq)
         in st3\<lparr>hasSchema := True\<rparr>)
      else if startsWith trimmed ''type '' then
        (let st1 = pushError st (\<not> hasModel st) lineNum
                     (dq @ ''type'' @ dq @ '' must come after '' @ dq @ ''model'' @ dq @ '' declaration'');
             typeName = trim (replaceFirst trimmed ''type '' []);
             st2 = (if typeName = [] then pushError st1 True lineNum ''Type name is required''
                    else pushError st1 (\<not> isIdentifier typeName) lineNum
                           (''Invalid type name '' @ dq @ typeName @ dq))
         in st2\<lparr>vCurrentType := Some typeName, vInRelations := False\<rparr>)
      else if trimmed = ''relations'' then
        (pushError st (vCurrentType st = None \<or> vCurrentType st = Some []) lineNum
           (dq @ ''relations'' @ dq @ '' must be inside a type definition''))
          \<lparr>vInRelations := True\<rparr>
      else if startsWith trimmed ''define '' then validateDefine st lineNum trimmed
      else if startsWith trimmed ''condition '' then st\<lparr>vInRelations := False, vCurrentType := None\<rparr>
      else
        pushError st (trimmed \<noteq> [] \<and> \<not> startsWith line '' '' \<and> \<not> startsWith line [CHR 0x09]) lineNum
          (''Unknown keyword or invalid syntax: '' @ dq @ take 20 trimmed @ ''...'' @ dq))"

fun validateLines :: "ValidatorState \<Rightarrow> nat \<Rightarrow> string list \<Rightarrow> ValidatorState" where
  "validateLines st index [] = st"
| "validateLines st index (l # ls) = validateLines (validateLine st index l) (index + 1) ls"

definition dslErrors :: "string \<Rightarrow> Diagnostic list" where
  "dslErrors editContent =
     (if trim editContent = [] then []
      else
        (let st = validateLines
                    \<lparr>hasModel = False, hasSchema = False, vCurrentType = None,
                     vInRelations = False, errors = []\<rparr>
                    0 (split editContent ''\<newline>'');
             errors1 = (if trim editContent \<noteq> [] \<and> \<not> hasModel st
                        then \<lparr>d_line = 1, d_message = ''Model must start with '' @ dq @ ''model'' @ dq
                                                      @ '' declaration''\<rparr> # errors st
                        else errors st)
         in if hasModel st \<and> \<not> hasSchema st
            then errors1 @ [\<lparr>d_line = 2, d_message = ''Missing '' @ dq @ ''schema 1.1'' @ dq
                                                  @ '' after model declaration''\<rparr>]
            else errors1))"

section \<open>Notions used in the statements\<close>

text \<open>
  An operator occurs at bracket depth zero when the scan of \<open>splitByOperator\<close> reaches its
  split branch.
\<close>

fun topLevelOccurs :: "string \<Rightarrow> int \<Rightarrow> string \<Rightarrow> bool" where
  "topLevelOccurs operator bracketDepth [] = False"
| "topLevelOccurs operator bracketDepth (c # cs) =
     (if c = CHR ''['' then topLevelOccurs operator (bracketDepth + 1) cs
      else if c = CHR '']'' then topLevelOccurs operator (bracketDepth - 1) cs
      else if bracketDepth = 0 \<and> startsWith (c # cs) operator then True
      else topLevelOccurs operator bracketDepth cs)"

text \<open>The model with the one condition \<open>valid_time\<close> and its two parameters in order.\<close>

definition validTimeModel :: AuthorizationModel where
  "validTimeModel =
     \<lparr>schema_version = ''1.1'', type_definitions = [],
      conditions = Some [(''valid_time'',
        \<lparr>c_name = ''valid_time'', c_expression = ''current < expiry'',
         c_parameters = Some [(''current'', ConditionParamTypeRef ''string'' None),
                              (''expiry'', ConditionParamTypeRef ''string'' None)]\<rparr>)]\<rparr>"




















text \<open>
  The number of stack frames a serializer needs for a node: one for the node itself, and,
  when the node is rendered from its children (no \<open>this\<close>, \<open>computedUserset\<close> or
  \<open>tupleToUserset\<close> comes first), as many more as its deepest child needs.
\<close>

lemma size_member: "(x :: Userset) \<in> set xs \<Longrightarrow> size x < Suc (size_list size xs)"
  by (induction xs) auto

function (sequential) nesting :: "Userset \<Rightarrow> nat" where
  "nesting (Userset th cu ttu un isect diff) =
     (if th \<noteq> None \<or> cu \<noteq> None \<or> ttu \<noteq> None then 1
      else
        (case un of
           Some (Usersets ch) \<Rightarrow>
             Suc (foldr max (map nesting (case ch of None \<Rightarrow> [] | Some cs \<Rightarrow> cs)) 0)
         | None \<Rightarrow>
        (case isect of
           Some (Usersets ch) \<Rightarrow>
             Suc (foldr max (map nesting (case ch of None \<Rightarrow> [] | Some cs \<Rightarrow> cs)) 0)
         | None \<Rightarrow>
        (case diff of
           Some (Difference b s) \<Rightarrow>
             Suc (max (case b of None \<Rightarrow> 1 | Some b' \<Rightarrow> nesting b')
                      (case s of None \<Rightarrow> 1 | Some s' \<Rightarrow> nesting s'))
         | None \<Rightarrow> 1))))"
  by pat_completeness auto
termination
  by (relation "measure size") (auto dest: size_member)





section \<open>Auxiliary notions of the proofs\<close>

text \<open>The body of \<open>parseRelationDefinition\<close>, over what its recursive calls answer.\<close>

definition parseStep :: "(string \<Rightarrow> error + Userset) \<Rightarrow> string \<Rightarrow> error + Userset" where
  "parseStep rec definition =
     (let trimmed = trim definition in
      if startsWith trimmed ''['' \<and> endsWith trimmed '']'' then Inr thisUserset
      else if includesStr trimmed '' or '' then
        (case mapE rec (splitByOperator trimmed '' or '') of
           Inl e \<Rightarrow> Inl e
         | Inr cs \<Rightarrow> Inr (unionOf cs))
      else if includesStr trimmed '' and '' then
        (case mapE rec (splitByOperator trimmed '' and '') of
           Inl e \<Rightarrow> Inl e
         | Inr cs \<Rightarrow> Inr (intersectionOf cs))
      else if includesStr trimmed '' but not '' then
        (case split trimmed '' but not '' of
           p0 # p1 # _ \<Rightarrow>
             (case rec p0 of
                Inl e \<Rightarrow> Inl e
              | Inr b \<Rightarrow> (case rec p1 of Inl e \<Rightarrow> Inl e | Inr s \<Rightarrow> Inr (differenceOf b s)))
         | _ \<Rightarrow> Inl TypeError)
      else if includesStr trimmed ''->'' then
        (case split trimmed ''->'' of
           p0 # p1 # _ \<Rightarrow> Inr (tupleToUsersetOf (trim p0) (trim p1))
         | _ \<Rightarrow> Inl TypeError)
      else if isWord trimmed then Inr (computedUserset trimmed)
      else
        (case bracketRestMatch trimmed of
           Some (inner, rest0) \<Rightarrow>
             (let rest = trim rest0 in
              if rest = [] then Inr thisUserset
              else if startsWith rest ''or '' then
                (case rec (trim (drop 3 rest)) of
                   Inl e \<Rightarrow> Inl e
                 | Inr u \<Rightarrow> Inr (unionOf [thisUserset, u]))
              else Inr thisUserset)
         | None \<Rightarrow> Inr thisUserset))"
















definition reparsed :: "string \<Rightarrow> Userset" where
  "reparsed e = (case parseRelationDefinition 2 e of Inr u \<Rightarrow> u | Inl x \<Rightarrow> emptyUserset)"















section \<open>Evaluation on concrete texts\<close>

lemmas str_eval = trim_def isSpace_def isLineTerminator_def isDigit_def isAlpha_def isWordChar_def
  startsWith_def endsWith_def split_def isWord_def isDigits_def isIdentifier_def

lemmas regex_eval = schemaMatch_def typeMatch_def defineMatch_def bracketRestMatch_def
  conditionMatch_def hashMatch_def condMatch_def paramMatch_def

lemmas line_eval = parseLine_def defineLine_def conditionLine_def conditionBodyLine_def
  pushType_def extractDirectTypes_def pushSpread_def parseLines_def initialState_def

section \<open>A deeper stack changes no result\<close>

lemma mapE_mono:
  assumes "\<And>x y. f x = Inr y \<Longrightarrow> g x = Inr y" "mapE f xs = Inr ys"
  shows "mapE g xs = Inr ys"
  using assms(2)
proof (induction xs arbitrary: ys)
  case Nil
  then show ?case by simp
next
  case (Cons x xs)
  from Cons.prems obtain y ys' where y: "f x = Inr y" "mapE f xs = Inr ys'" "ys = y # ys'"
    by (auto split: sum.splits)
  from assms(1)[OF y(1)] Cons.IH[OF y(2)] y(3) show ?case by simp
qed

lemma union_mono:
  assumes "\<And>x y. f x = Inr y \<Longrightarrow> g x = Inr y"
    and "(case mapE f ps of Inl e \<Rightarrow> Inl e | Inr cs \<Rightarrow> Inr (k cs)) = Inr u"
  shows "(case mapE g ps of Inl e \<Rightarrow> Inl e | Inr cs \<Rightarrow> Inr (k cs)) = Inr u"
proof -
  from assms(2) obtain cs where "mapE f ps = Inr cs" "u = k cs"
    by (auto split: sum.splits)
  with mapE_mono[where f = f and g = g and xs = ps and ys = cs] assms(1) show ?thesis by simp
qed

lemma difference_mono:
  assumes "\<And>x y. f x = Inr y \<Longrightarrow> g x = Inr y"
    and "(case ps of
            p0 # p1 # _ \<Rightarrow>
              (case f p0 of Inl e \<Rightarrow> Inl e
               | Inr b \<Rightarrow> (case f p1 of Inl e \<Rightarrow> Inl e | Inr s \<Rightarrow> Inr (differenceOf b s)))
          | _ \<Rightarrow> Inl TypeError) = Inr u"
  shows "(case ps of
            p0 # p1 # _ \<Rightarrow>
              (case g p0 of Inl e \<Rightarrow> Inl e
               | Inr b \<Rightarrow> (case g p1 of Inl e \<Rightarrow> Inl e | Inr s \<Rightarrow> Inr (differenceOf b s)))
          | _ \<Rightarrow> Inl TypeError) = Inr u"
proof -
  from assms(2) obtain p0 p1 r b s where "ps = p0 # p1 # r" "f p0 = Inr b" "f p1 = Inr s"
    "u = differenceOf b s"
    by (auto split: list.splits sum.splits)
  with assms(1)[of p0 b] assms(1)[of p1 s] show ?thesis by simp
qed

lemma bracket_mono:
  assumes "\<And>x y. f x = Inr y \<Longrightarrow> g x = Inr y"
    and "(case m of
           Some (inner, rest0) \<Rightarrow>
             (let rest = trim rest0 in
              if rest = [] then Inr thisUserset
              else if startsWith rest ''or '' then
                (case f (trim (drop 3 rest)) of
                   Inl e \<Rightarrow> Inl e
                 | Inr u \<Rightarrow> Inr (unionOf [thisUserset, u]))
              else Inr thisUserset)
         | None \<Rightarrow> Inr thisUserset) = Inr u"
  shows "(case m of
           Some (inner, rest0) \<Rightarrow>
             (let rest = trim rest0 in
              if rest = [] then Inr thisUserset
              else if startsWith rest ''or '' then
                (case g (trim (drop 3 rest)) of
                   Inl e \<Rightarrow> Inl e
                 | Inr u \<Rightarrow> Inr (unionOf [thisUserset, u]))
              else Inr thisUserset)
         | None \<Rightarrow> Inr thisUserset) = Inr u"
proof (cases m)
  case None
  with assms(2) show ?thesis by simp
next
  case (Some x)
  obtain inner rest0 where x: "x = (inner, rest0)" by (cases x)
  show ?thesis
  proof (cases "trim rest0 \<noteq> [] \<and> startsWith (trim rest0) ''or ''")
    case True
    with assms(2) Some x obtain v where "f (trim (drop 3 (trim rest0))) = Inr v"
      "u = unionOf [thisUserset, v]"
      by (auto simp: Let_def split: sum.splits)
    with assms(1)[of "trim (drop 3 (trim rest0))" v] True Some x show ?thesis
      by (simp add: Let_def)
  next
    case False
    with assms(2) Some x show ?thesis
      by (auto simp: Let_def split: if_splits)
  qed
qed

lemma parseRelationDefinition_step:
  "parseRelationDefinition (Suc fuel) d = parseStep (parseRelationDefinition fuel) d"
  by (simp add: parseStep_def)

lemma parseStep_mono:
  assumes "\<And>x y. f x = Inr y \<Longrightarrow> g x = Inr y" "parseStep f d = Inr u"
  shows "parseStep g d = Inr u"
proof -
  define t where "t = trim d"
  define wrapped where "wrapped = (startsWith t ''['' \<and> endsWith t '']'')"
  have unfold: "parseStep h d =
      (if wrapped then Inr thisUserset
      else if includesStr t '' or '' then
        (case mapE h (splitByOperator t '' or '') of
           Inl e \<Rightarrow> Inl e
         | Inr cs \<Rightarrow> Inr (unionOf cs))
      else if includesStr t '' and '' then
        (case mapE h (splitByOperator t '' and '') of
           Inl e \<Rightarrow> Inl e
         | Inr cs \<Rightarrow> Inr (intersectionOf cs))
      else if includesStr t '' but not '' then
        (case split t '' but not '' of
           p0 # p1 # _ \<Rightarrow>
             (case h p0 of
                Inl e \<Rightarrow> Inl e
              | Inr b \<Rightarrow> (case h p1 of Inl e \<Rightarrow> Inl e | Inr s \<Rightarrow> Inr (differenceOf b s)))
         | _ \<Rightarrow> Inl TypeError)
      else if includesStr t ''->'' then
        (case split t ''->'' of
           p0 # p1 # _ \<Rightarrow> Inr (tupleToUsersetOf (trim p0) (trim p1))
         | _ \<Rightarrow> Inl TypeError)
      else if isWord t then Inr (computedUserset t)
      else
        (case bracketRestMatch t of
           Some (inner, rest0) \<Rightarrow>
             (let rest = trim rest0 in
              if rest = [] then Inr thisUserset
              else if startsWith rest ''or '' then
                (case h (trim (drop 3 rest)) of
                   Inl e \<Rightarrow> Inl e
                 | Inr u \<Rightarrow> Inr (unionOf [thisUserset, u]))
              else Inr thisUserset)
         | None \<Rightarrow> Inr thisUserset))" for h
    unfolding parseStep_def wrapped_def t_def Let_def ..
  consider (direct) "wrapped"
    | (union) "\<not> wrapped" "includesStr t '' or ''"
    | (inter) "\<not> wrapped" "\<not> includesStr t '' or ''" "includesStr t '' and ''"
    | (diff) "\<not> wrapped" "\<not> includesStr t '' or ''" "\<not> includesStr t '' and ''"
        "includesStr t '' but not ''"
    | (leaf) "\<not> wrapped" "\<not> includesStr t '' or ''" "\<not> includesStr t '' and ''"
        "\<not> includesStr t '' but not ''" "includesStr t ''->'' \<or> isWord t"
    | (bracket) "\<not> wrapped" "\<not> includesStr t '' or ''" "\<not> includesStr t '' and ''"
        "\<not> includesStr t '' but not ''" "\<not> includesStr t ''->''" "\<not> isWord t"
    by blast
  then show ?thesis
  proof cases
    case direct
    with assms(2) show ?thesis
      by (simp add: unfold)
  next
    case union
    with assms(2) union_mono[where f = f and g = g and ps = "splitByOperator t '' or ''"
        and k = unionOf and u = u] assms(1)
    show ?thesis
      by (simp add: unfold)
  next
    case inter
    with assms(2) union_mono[where f = f and g = g and ps = "splitByOperator t '' and ''"
        and k = intersectionOf and u = u] assms(1)
    show ?thesis
      by (simp add: unfold)
  next
    case diff
    with assms(2) difference_mono[where f = f and g = g and ps = "split t '' but not ''" and u = u]
      assms(1)
    show ?thesis
      by (simp add: unfold)
  next
    case leaf
    with assms(2) show ?thesis
      by (auto simp: unfold)
  next
    case bracket
    with assms(2) bracket_mono[where f = f and g = g and m = "bracketRestMatch t" and u = u]
      assms(1)
    show ?thesis
      by (simp add: unfold)
  qed
qed

lemma parseRelationDefinition_more_fuel:
  "parseRelationDefinition fuel d = Inr u \<Longrightarrow> parseRelationDefinition (Suc fuel) d = Inr u"
proof (induction fuel arbitrary: d u)
  case 0
  then show ?case by simp
next
  case (Suc fuel)
  from Suc.prems have "parseStep (parseRelationDefinition fuel) d = Inr u"
    by (simp only: parseRelationDefinition_step)
  then have "parseStep (parseRelationDefinition (Suc fuel)) d = Inr u"
    by (rule parseStep_mono[rotated]) (rule Suc.IH)
  then show ?case
    by (simp only: parseRelationDefinition_step)
qed

lemma parseRelationDefinition_fuel_le:
  assumes "parseRelationDefinition n d = Inr u" "n \<le> m"
  shows "parseRelationDefinition m d = Inr u"
  using assms(2,1)
  by (induction rule: dec_induct) (simp_all only: parseRelationDefinition_more_fuel)

section \<open>C1: the parser on an operator that occurs only inside an open bracket\<close>

lemma unclosed_bracket_split:
  "splitByOperator ''[user or owner'' '' or '' = [''[user or owner'']"
  by (simp add: splitByOperator_def str_eval)

lemma unclosed_bracket_parse:
  "parseRelationDefinition fuel ''[user or owner'' = Inl RangeError"
proof (induction fuel)
  case 0
  show ?case by simp
next
  case (Suc fuel)
  have t: "trim ''[user or owner'' = ''[user or owner''"
    by (simp add: str_eval)
  show ?case
    by (simp add: t unclosed_bracket_split Suc str_eval)
qed

lemma unclosed_bracket_lines:
  "parseLines maxArguments (split ''model\<newline>  schema 1.1\<newline>type document\<newline>  relations\<newline>    define viewer: [user or owner'' ''\<newline>'')
   = Inr \<lparr>schemaVersion = ''1.1'',
          types = [\<lparr>pt_name = ''document'',
                    pt_relations = [\<lparr>pr_name = ''viewer'', pr_definition = ''[user or owner'',
                                     pr_directTypes = []\<rparr>]\<rparr>],
          conditions_parsed = []\<rparr>"
  by (simp add: str_eval regex_eval line_eval)

text \<open>
  C1 says that \<open>parseDSL\<close> returns a model for every input text and never throws. On the
  text below, whose define line has \<open>[user or owner\<close> with the bracket left open, the
  expression contains \<open> or \<close> but \<open>splitByOperator\<close> finds no split point outside the
  bracket and returns the expression whole; \<open>parseRelationDefinition\<close> then calls itself
  on its own argument. Whatever the stack allows, the call ends in \<open>RangeError\<close>.
  (The bracket being open, the line has no bracket list, and no spread call is made.)
\<close>

theorem parseDSL_unclosed_bracket_overflows:
  "parseDSL fuel maxArguments ''model\<newline>  schema 1.1\<newline>type document\<newline>  relations\<newline>    define viewer: [user or owner''
   = Inl RangeError"
  by (simp add: parseDSL_def unclosed_bracket_lines convertToJSON_def convertType_def
      unclosed_bracket_parse)

section \<open>C6: the new-model template\<close>

lemmas json_eval = convertToJSON_def convertType_def convertConditions_def objSet_def
  isArrayIndex_def isDigit_def

lemma template_lines:
  "parseLines (Suc maxArguments) (split ''model\<newline>  schema 1.1\<newline>\<newline>type user\<newline>\<newline>type document\<newline>  relations\<newline>    define owner: [user]\<newline>    define viewer: [user] or owner\<newline>'' ''\<newline>'')
   = Inr \<lparr>schemaVersion = ''1.1'',
          types = [\<lparr>pt_name = ''user'', pt_relations = []\<rparr>,
                   \<lparr>pt_name = ''document'',
                    pt_relations = [\<lparr>pr_name = ''owner'', pr_definition = ''[user]'',
                                     pr_directTypes = [''user'']\<rparr>,
                                    \<lparr>pr_name = ''viewer'', pr_definition = ''[user] or owner'',
                                     pr_directTypes = [''user'']\<rparr>]\<rparr>],
          conditions_parsed = []\<rparr>"
  by (simp add: str_eval regex_eval line_eval)

lemma parse_bracket_user: "parseRelationDefinition (Suc fuel) ''[user]'' = Inr thisUserset"
  by (simp add: str_eval)

lemma parse_owner:
  "parseRelationDefinition (Suc fuel) ''owner'' = Inr (computedUserset ''owner'')"
  by (simp add: str_eval)

lemma split_user_or_owner:
  "splitByOperator ''[user] or owner'' '' or '' = [''[user]'', ''owner'']"
  by (simp add: splitByOperator_def str_eval)

lemma parse_user_or_owner:
  "parseRelationDefinition (Suc (Suc fuel)) ''[user] or owner''
   = Inr (unionOf [thisUserset, computedUserset ''owner''])"
proof -
  have t: "trim ''[user] or owner'' = ''[user] or owner''"
    by (simp add: str_eval)
  show ?thesis
    unfolding parseRelationDefinition.simps(2)[of "Suc fuel"] t Let_def split_user_or_owner
    by (simp add: parse_bracket_user parse_owner startsWith_def endsWith_def
        del: parseRelationDefinition.simps)
qed

lemma user_ref:
  "parseTypeReference ''user''
   = \<lparr>rr_type = ''user'', rr_relation = None, rr_wildcard = None, rr_condition = None\<rparr>"
  by (simp add: parseTypeReference_def str_eval regex_eval)

text \<open>
  C6: the text of the new-model template parses, with any stack of at least two frames
  that takes at least one argument in the spread call, to schema version 1.1 and two type definitions in order: \<open>user\<close> without relations, and
  \<open>document\<close> whose relation \<open>owner\<close> is a direct assignment with directly related type
  \<open>user\<close> and whose relation \<open>viewer\<close> is the union of a direct assignment (metadata
  \<open>user\<close>) and the computed userset \<open>owner\<close>.
\<close>

theorem template_parses:
  "parseDSL (Suc (Suc fuel)) (Suc maxArguments) ''model\<newline>  schema 1.1\<newline>\<newline>type user\<newline>\<newline>type document\<newline>  relations\<newline>    define owner: [user]\<newline>    define viewer: [user] or owner\<newline>''
   = Inr \<lparr>schema_version = ''1.1'',
          type_definitions =
            [\<lparr>td_type = ''user'', td_relations = None, td_metadata = None\<rparr>,
             \<lparr>td_type = ''document'',
              td_relations = Some [(''owner'', thisUserset),
                                   (''viewer'', unionOf [thisUserset, computedUserset ''owner''])],
              td_metadata = Some \<lparr>md_relations = Some
                [(''owner'', \<lparr>directly_related_user_types = Some
                   [\<lparr>rr_type = ''user'', rr_relation = None, rr_wildcard = None,
                     rr_condition = None\<rparr>]\<rparr>),
                 (''viewer'', \<lparr>directly_related_user_types = Some
                   [\<lparr>rr_type = ''user'', rr_relation = None, rr_wildcard = None,
                     rr_condition = None\<rparr>]\<rparr>)]\<rparr>\<rparr>],
          conditions = None\<rparr>"
  unfolding parseDSL_def template_lines
  by (simp add: json_eval user_ref parse_bracket_user parse_user_or_owner
      del: parseRelationDefinition.simps)

section \<open>C5: a bracket list with a comma before \<open>or\<close>\<close>

lemma group_lines:
  "parseLines (Suc (Suc maxArguments)) (split ''model\<newline>  schema 1.1\<newline>type document\<newline>  relations\<newline>    define viewer: [user, group#member] or owner'' ''\<newline>'')
   = Inr \<lparr>schemaVersion = ''1.1'',
          types = [\<lparr>pt_name = ''document'',
                    pt_relations = [\<lparr>pr_name = ''viewer'',
                                     pr_definition = ''[user, group#member] or owner'',
                                     pr_directTypes = [''user'', ''group#member'']\<rparr>]\<rparr>],
          conditions_parsed = []\<rparr>"
  by (simp add: str_eval regex_eval line_eval)

lemma parse_bracket_group:
  "parseRelationDefinition (Suc fuel) ''[user, group#member]'' = Inr thisUserset"
  by (simp add: str_eval)

lemma split_group_or_owner:
  "splitByOperator ''[user, group#member] or owner'' '' or '' = [''[user, group#member]'', ''owner'']"
  by (simp add: splitByOperator_def str_eval)

lemma parse_group_or_owner:
  "parseRelationDefinition (Suc (Suc fuel)) ''[user, group#member] or owner''
   = Inr (unionOf [thisUserset, computedUserset ''owner''])"
proof -
  have t: "trim ''[user, group#member] or owner'' = ''[user, group#member] or owner''"
    by (simp add: str_eval)
  show ?thesis
    unfolding parseRelationDefinition.simps(2)[of "Suc fuel"] t Let_def split_group_or_owner
    by (simp add: parse_bracket_group parse_owner startsWith_def endsWith_def
        del: parseRelationDefinition.simps)
qed

lemma group_member_ref:
  "parseTypeReference ''group#member''
   = \<lparr>rr_type = ''group'', rr_relation = Some ''member'', rr_wildcard = None, rr_condition = None\<rparr>"
  by (simp add: parseTypeReference_def str_eval regex_eval)

text \<open>
  C5: in a define line, \<open>[user, group#member] or owner\<close> is split into exactly the two
  parts \<open>[user, group#member]\<close> and \<open>owner\<close>, the comma inside the brackets being no split
  point, and the relation parses to the union of a direct assignment and the computed
  userset \<open>owner\<close>; its metadata carries the two references, the plain type \<open>user\<close> and
  the relation \<open>member\<close> on \<open>group\<close>. This holds with any stack of at least two frames
  that takes at least two arguments in the spread call.
\<close>

theorem bracket_list_or_owner:
  "splitByOperator ''[user, group#member] or owner'' '' or '' = [''[user, group#member]'', ''owner'']
   \<and> parseDSL (Suc (Suc fuel)) (Suc (Suc maxArguments)) ''model\<newline>  schema 1.1\<newline>type document\<newline>  relations\<newline>    define viewer: [user, group#member] or owner''
   = Inr \<lparr>schema_version = ''1.1'',
          type_definitions =
            [\<lparr>td_type = ''document'',
              td_relations = Some [(''viewer'', unionOf [thisUserset, computedUserset ''owner''])],
              td_metadata = Some \<lparr>md_relations = Some
                [(''viewer'', \<lparr>directly_related_user_types = Some
                   [\<lparr>rr_type = ''user'', rr_relation = None, rr_wildcard = None,
                     rr_condition = None\<rparr>,
                    \<lparr>rr_type = ''group'', rr_relation = Some ''member'', rr_wildcard = None,
                     rr_condition = None\<rparr>]\<rparr>)]\<rparr>\<rparr>],
          conditions = None\<rparr>"
  unfolding parseDSL_def group_lines
  by (simp add: json_eval user_ref group_member_ref parse_group_or_owner split_group_or_owner
      del: parseRelationDefinition.simps)

section \<open>C9: serializing a node of any shape\<close>














lemma nesting_empty: "nesting (Userset None None None None None None) = 1"
  by simp










section \<open>C8: the condition \<open>valid_time\<close>\<close>

lemma single_line_condition_lines:
  "parseLines maxArguments (split ''condition valid_time(current: string, expiry: string) { current < expiry }'' ''\<newline>'')
   = Inr \<lparr>schemaVersion = ''1.1'', types = [], conditions_parsed = []\<rparr>"
  by (simp add: str_eval regex_eval line_eval)

text \<open>
  C8, as stated, has the condition on one line. The header's regular expression ends in
  \<open>\{?\s*$\<close>, so a line that goes on after the brace is no condition header; the parser
  then skips the line, and the model has no condition.
\<close>

theorem single_line_condition_ignored:
  "parseDSL 1 1 ''condition valid_time(current: string, expiry: string) { current < expiry }''
   = Inr \<lparr>schema_version = ''1.1'', type_definitions = [], conditions = None\<rparr>"
  unfolding parseDSL_def single_line_condition_lines
  by (simp add: json_eval)

lemma block_condition_lines:
  "parseLines maxArguments (split ''condition valid_time(current: string, expiry: string) {\<newline>  current < expiry\<newline>}'' ''\<newline>'')
   = Inr \<lparr>schemaVersion = ''1.1'', types = [],
          conditions_parsed = [\<lparr>pc_name = ''valid_time'',
                                 pc_params = ''current: string, expiry: string'',
                                 pc_expression = ''current < expiry''\<rparr>]\<rparr>"
  by (simp add: str_eval regex_eval line_eval)

lemma serialized_condition_lines:
  "parseLines maxArguments (split ''model\<newline>  schema 1.1\<newline>\<newline>condition valid_time(current: string, expiry: string) {\<newline>  current < expiry\<newline>}\<newline>'' ''\<newline>'')
   = Inr \<lparr>schemaVersion = ''1.1'', types = [],
          conditions_parsed = [\<lparr>pc_name = ''valid_time'',
                                 pc_params = ''current: string, expiry: string'',
                                 pc_expression = ''current < expiry''\<rparr>]\<rparr>"
  by (simp add: str_eval regex_eval line_eval)

lemma valid_time_params:
  "parseConditionParams ''current: string, expiry: string''
   = Some [(''current'', ConditionParamTypeRef ''string'' None),
           (''expiry'', ConditionParamTypeRef ''string'' None)]"
  by (simp add: parseConditionParams_def str_eval regex_eval objSet_def isArrayIndex_def)

text \<open>
  C8 amended: written as a block (the header line ending in the brace, the expression on
  a line of its own, the closing brace on a line of its own), the text parses to the
  condition \<open>valid_time\<close> with expression \<open>current < expiry\<close> and the parameters
  \<open>current\<close> and \<open>expiry\<close>, in that order, each of type \<open>string\<close>. The serializer
  renders that model as the same block after the model header, the expression indented by
  two spaces and a blank line after the brace, and that text parses to the same model.
  The model has no relation and no bracket list, so this holds whatever the stack allows.
\<close>

theorem condition_block_round_trip:
  "parseDSL fuel maxArguments ''condition valid_time(current: string, expiry: string) {\<newline>  current < expiry\<newline>}''
     = Inr validTimeModel
   \<and> modelToDSLForEdit frames validTimeModel
     = Inr ''model\<newline>  schema 1.1\<newline>\<newline>condition valid_time(current: string, expiry: string) {\<newline>  current < expiry\<newline>}\<newline>''
   \<and> parseDSL fuel maxArguments ''model\<newline>  schema 1.1\<newline>\<newline>condition valid_time(current: string, expiry: string) {\<newline>  current < expiry\<newline>}\<newline>''
     = Inr validTimeModel"
proof -
  have parsed: "parseDSL fuel maxArguments ''condition valid_time(current: string, expiry: string) {\<newline>  current < expiry\<newline>}'' = Inr validTimeModel"
    unfolding parseDSL_def block_condition_lines
    by (simp add: json_eval valid_time_params validTimeModel_def)
  have rendered: "modelToDSLForEdit frames validTimeModel
     = Inr ''model\<newline>  schema 1.1\<newline>\<newline>condition valid_time(current: string, expiry: string) {\<newline>  current < expiry\<newline>}\<newline>''"
    by (simp add: modelToDSLForEdit_def validTimeModel_def conditionLines_def
        formatConditionParams_def)
  have reparsed: "parseDSL fuel maxArguments ''model\<newline>  schema 1.1\<newline>\<newline>condition valid_time(current: string, expiry: string) {\<newline>  current < expiry\<newline>}\<newline>'' = Inr validTimeModel"
    unfolding parseDSL_def serialized_condition_lines
    by (simp add: json_eval valid_time_params validTimeModel_def)
  from parsed rendered reparsed show ?thesis by simp
qed

section \<open>C7: the validator without a model line\<close>

lemma pushError_hasModel: "hasModel (pushError st c n m) = hasModel st"
  by (simp add: pushError_def)

lemma validateLine_hasModel:
  "trim l \<noteq> ''model'' \<Longrightarrow> hasModel (validateLine st i l) = hasModel st"
  by (simp add: validateLine_def validateDefine_def Let_def pushError_hasModel)

lemma validateLines_hasModel:
  "\<forall>l \<in> set ls. trim l \<noteq> ''model'' \<Longrightarrow> hasModel (validateLines st i ls) = hasModel st"
  by (induction ls arbitrary: st i) (simp_all add: validateLine_hasModel)

text \<open>
  C7, as stated, fails on a text whose \<open>model\<close> line is indented: no line of the text is
  exactly \<open>model\<close>, but the validator compares each line after trimming it, takes the
  indented line for the model declaration, and reports nothing.
\<close>

theorem indented_model_line_accepted:
  "trim ''  model\<newline>  schema 1.1\<newline>type user'' \<noteq> []
   \<and> ''model'' \<notin> set (split ''  model\<newline>  schema 1.1\<newline>type user'' ''\<newline>'')
   \<and> dslErrors ''  model\<newline>  schema 1.1\<newline>type user'' = []"
  by (simp add: dslErrors_def validateLine_def pushError_def replaceFirst.simps str_eval)

text \<open>
  C7 amended: for a text that is not blank and none of whose lines is \<open>model\<close> once
  trimmed (the validator compares the trimmed line), the validator's output is not empty
  and its first diagnostic is the missing-model one, at line 1, whatever follows it.
\<close>

theorem missing_model_reported_first:
  assumes "trim text \<noteq> []"
    and "\<forall>l \<in> set (split text ''\<newline>''). trim l \<noteq> ''model''"
  shows "\<exists>rest. dslErrors text
           = \<lparr>d_line = 1,
              d_message = ''Model must start with '' @ dq @ ''model'' @ dq @ '' declaration''\<rparr>
             # rest"
  using assms by (simp add: dslErrors_def Let_def validateLines_hasModel)

theorem missing_model_reported_first_witness:
  "\<exists>rest. dslErrors ''schema 1.1\<newline>type user\<newline>''
           = \<lparr>d_line = 1,
              d_message = ''Model must start with '' @ dq @ ''model'' @ dq @ '' declaration''\<rparr>
             # rest"
  using missing_model_reported_first[of "''schema 1.1\<newline>type user\<newline>''"]
  by (simp add: str_eval)

section \<open>C10: a define line out of place\<close>

lemma defineMatch_startsWith: "defineMatch t = Some x \<Longrightarrow> startsWith t ''define''"
  by (simp add: defineMatch_def split: if_splits)

lemma define_is_nothing_else:
  assumes "startsWith t ''define''"
  shows "t \<noteq> []" "\<not> startsWith t ''#''" "\<not> startsWith t ''//''" "t \<noteq> ''model''"
    "schemaMatch t = None" "typeMatch t = None" "t \<noteq> ''relations''" "conditionMatch t = None"
  using assms
  by (cases t; auto simp: startsWith_def schemaMatch_def typeMatch_def conditionMatch_def)+

lemma define_line_skipped:
  assumes "defineMatch (trim l) \<noteq> None"
    and "currentType st = None \<or> inRelations st = False"
    and "currentCondition st = None \<or> inCondition st = False"
  shows "parseLine maxArguments st l = Inr st"
proof -
  from assms(1) obtain x where x: "defineMatch (trim l) = Some x"
    by auto
  note d = define_is_nothing_else[OF defineMatch_startsWith[OF x]]
  show ?thesis
    using assms(2,3) x d
    by (auto simp: parseLine_def defineLine_def conditionLine_def conditionBodyLine_def Let_def
        split: option.splits prod.splits)
qed

lemma parseLoop_append:
  "parseLoop maxArguments st (xs @ ys)
   = (case parseLoop maxArguments st xs of
        Inl e \<Rightarrow> Inl e
      | Inr st' \<Rightarrow> parseLoop maxArguments st' ys)"
  by (induction xs arbitrary: st) (auto split: sum.splits)

lemma parseLines_skip:
  assumes "\<And>st. parseLoop maxArguments initialState pre = Inr st \<Longrightarrow> parseLine maxArguments st l = Inr st"
  shows "parseLines maxArguments (pre @ l # post) = parseLines maxArguments (pre @ post)"
proof (cases "parseLoop maxArguments initialState pre")
  case (Inl e)
  then show ?thesis
    by (simp add: parseLines_def parseLoop_append)
next
  case (Inr st)
  with assms[OF Inr] show ?thesis
    by (simp add: parseLines_def parseLoop_append)
qed

lemma condition_body_lines1:
  "parseLines maxArguments (split ''condition c() {\<newline>define a: b\<newline>}'' ''\<newline>'')
   = Inr \<lparr>schemaVersion = ''1.1'', types = [],
          conditions_parsed = [\<lparr>pc_name = ''c'', pc_params = [], pc_expression = ''define a: b''\<rparr>]\<rparr>"
  by (simp add: str_eval regex_eval line_eval)

lemma condition_body_lines2:
  "parseLines maxArguments (split ''condition c() {\<newline>}'' ''\<newline>'')
   = Inr \<lparr>schemaVersion = ''1.1'', types = [],
          conditions_parsed = [\<lparr>pc_name = ''c'', pc_params = [], pc_expression = []\<rparr>]\<rparr>"
  by (simp add: str_eval regex_eval line_eval)

text \<open>
  C10, as stated, fails inside a condition block: there no type is open, so the define
  line is not taken as a relation, and it falls through to the capture of the condition's
  body. The line becomes the condition's expression, and the model differs from the one
  parsed without the line.
\<close>

theorem define_line_in_condition_body_kept:
  "parseDSL 1 1 ''condition c() {\<newline>define a: b\<newline>}''
     = Inr \<lparr>schema_version = ''1.1'', type_definitions = [],
            conditions = Some [(''c'', \<lparr>c_name = ''c'', c_expression = ''define a: b'',
                                       c_parameters = None\<rparr>)]\<rparr>
   \<and> parseDSL 1 1 ''condition c() {\<newline>define a: b\<newline>}'' \<noteq> parseDSL 1 1 ''condition c() {\<newline>}''"
  unfolding parseDSL_def condition_body_lines1 condition_body_lines2
  by (simp add: json_eval parseConditionParams_def trim_def)

text \<open>
  C10 amended: let the define line \<open>l\<close> follow the lines \<open>pre\<close>. If, in the state the
  loop reaches after \<open>pre\<close>, no condition body is open, and either no type is open or
  the open type has had no \<open>relations\<close> line, then the parser skips \<open>l\<close>: the text with
  the line and the text without it parse to the same result, error or model.
\<close>

theorem define_line_out_of_place_ignored:
  assumes "split dsl ''\<newline>'' = pre @ l # post"
    and "split dsl' ''\<newline>'' = pre @ post"
    and "defineMatch (trim l) \<noteq> None"
    and "\<And>st. parseLoop maxArguments initialState pre = Inr st
           \<Longrightarrow> currentType st = None \<or> inRelations st = False"
    and "\<And>st. parseLoop maxArguments initialState pre = Inr st
           \<Longrightarrow> currentCondition st = None \<or> inCondition st = False"
  shows "parseDSL fuel maxArguments dsl = parseDSL fuel maxArguments dsl'"
  unfolding parseDSL_def assms(1,2)
  by (simp add: parseLines_skip[OF define_line_skipped[OF assms(3) assms(4) assms(5)]])

lemma out_of_place_text1:
  "split ''model\<newline>define a: [user]\<newline>type user'' ''\<newline>''
   = [''model''] @ ''define a: [user]'' # [''type user'']"
  by (simp add: str_eval)

lemma out_of_place_text2:
  "split ''model\<newline>type user'' ''\<newline>'' = [''model''] @ [''type user'']"
  by (simp add: str_eval)

lemma out_of_place_define: "defineMatch (trim ''define a: [user]'') \<noteq> None"
  by (simp add: str_eval regex_eval)

lemma out_of_place_state: "parseLoop maxArguments initialState [''model''] = Inr initialState"
  by (simp add: str_eval line_eval)

theorem define_line_out_of_place_ignored_witness:
  "parseDSL 1 1 ''model\<newline>define a: [user]\<newline>type user'' = parseDSL 1 1 ''model\<newline>type user''"
  by (rule define_line_out_of_place_ignored
        [OF out_of_place_text1 out_of_place_text2 out_of_place_define])
     (simp_all only: out_of_place_state, simp_all add: initialState_def)

section \<open>C4: the union rule and the bracket test\<close>

lemma topLevelOccurs_includes: "topLevelOccurs operator depth s \<Longrightarrow> includesStr s operator"
  by (induction operator depth s rule: topLevelOccurs.induct) (auto split: if_splits)

text \<open>
  C4, as stated, fails on \<open>[user] or [group]\<close>: the expression has \<open> or \<close> at depth
  zero and splits into two parts there, but it starts with \<open>[\<close> and ends with \<open>]\<close>,
  and that test comes before the union rule and answers direct assignment.
\<close>

theorem bracketed_union_is_direct:
  "topLevelOccurs '' or '' 0 (trim ''[user] or [group]'')
   \<and> splitByOperator (trim ''[user] or [group]'') '' or '' = [''[user]'', ''[group]'']
   \<and> parseRelationDefinition 2 ''[user] or [group]'' = Inr thisUserset
   \<and> parseRelationDefinition 2 ''[user] or [group]'' \<noteq> Inr (unionOf [thisUserset, thisUserset])"
  by (simp add: str_eval splitByOperator_def unionOf_def thisUserset_def numeral_2_eq_2)

lemma trim_length: "length (trim s) \<le> length s"
proof -
  have "length (dropWhile isSpace (rev (dropWhile isSpace s))) \<le> length (rev (dropWhile isSpace s))"
    by (rule length_dropWhile_le)
  also have "\<dots> \<le> length s"
    by (simp add: length_dropWhile_le)
  finally show ?thesis by (simp add: trim_def)
qed

lemma loop_parts:
  assumes "operator \<noteq> []"
  shows "\<exists>new. fst (splitByOperatorLoop operator parts cur d rest) = parts @ new
           \<and> (topLevelOccurs operator d rest \<longrightarrow> new \<noteq> [])
           \<and> (new = [] \<longrightarrow> snd (splitByOperatorLoop operator parts cur d rest) = cur @ rest)
           \<and> (new \<noteq> [] \<longrightarrow>
                (\<forall>p \<in> set new. length p + length operator \<le> length cur + length rest)
                \<and> length (snd (splitByOperatorLoop operator parts cur d rest)) + length operator
                    \<le> length cur + length rest)"
  using assms
proof (induction operator parts cur d rest rule: splitByOperatorLoop.induct)
  case (1 operator parts current bracketDepth)
  then show ?case by simp
next
  case (2 operator parts current bracketDepth c cs)
  consider (lbracket) "c = CHR ''[''" | (rbracket) "c \<noteq> CHR ''[''" "c = CHR '']''"
    | (split) "c \<noteq> CHR ''[''" "c \<noteq> CHR '']''"
        "operator \<noteq> [] \<and> bracketDepth = 0 \<and> startsWith (c # cs) operator"
    | (other) "c \<noteq> CHR ''[''" "c \<noteq> CHR '']''"
        "\<not> (operator \<noteq> [] \<and> bracketDepth = 0 \<and> startsWith (c # cs) operator)"
    by blast
  then show ?case
  proof cases
    case lbracket
    from 2(1)[OF this 2(5)] obtain new where
      n: "fst (splitByOperatorLoop operator parts (current @ [c]) (bracketDepth + 1) cs) = parts @ new"
        "topLevelOccurs operator (bracketDepth + 1) cs \<longrightarrow> new \<noteq> []"
        "new = [] \<longrightarrow> snd (splitByOperatorLoop operator parts (current @ [c]) (bracketDepth + 1) cs) = (current @ [c]) @ cs"
        "new \<noteq> [] \<longrightarrow>
                (\<forall>p \<in> set new. length p + length operator \<le> length (current @ [c]) + length cs)
                \<and> length (snd (splitByOperatorLoop operator parts (current @ [c]) (bracketDepth + 1) cs)) + length operator
                    \<le> length (current @ [c]) + length cs"
      by blast
    show ?thesis
      using lbracket n by (intro exI[of _ new]) simp
  next
    case rbracket
    from 2(2)[OF this 2(5)] obtain new where
      n: "fst (splitByOperatorLoop operator parts (current @ [c]) (bracketDepth - 1) cs) = parts @ new"
        "topLevelOccurs operator (bracketDepth - 1) cs \<longrightarrow> new \<noteq> []"
        "new = [] \<longrightarrow> snd (splitByOperatorLoop operator parts (current @ [c]) (bracketDepth - 1) cs) = (current @ [c]) @ cs"
        "new \<noteq> [] \<longrightarrow>
                (\<forall>p \<in> set new. length p + length operator \<le> length (current @ [c]) + length cs)
                \<and> length (snd (splitByOperatorLoop operator parts (current @ [c]) (bracketDepth - 1) cs)) + length operator
                    \<le> length (current @ [c]) + length cs"
      by blast
    show ?thesis
      using rbracket n by (intro exI[of _ new]) simp
  next
    case split
    let ?r = "drop (length operator) (c # cs)"
    have len: "length operator \<le> length (c # cs)"
      using split(3) by (metis startsWith_def length_take min.absorb_iff2 nat_le_linear min.commute)
    then have lr: "length ?r + length operator = length (c # cs)"
      by simp
    from 2(3)[OF split(1,2,3) 2(5)] obtain new where
      n: "fst (splitByOperatorLoop operator (parts @ [trim current]) [] bracketDepth ?r)
            = (parts @ [trim current]) @ new"
        "new = [] \<longrightarrow> snd (splitByOperatorLoop operator (parts @ [trim current]) [] bracketDepth ?r) = [] @ ?r"
        "new \<noteq> [] \<longrightarrow>
            (\<forall>p \<in> set new. length p + length operator \<le> length ([]::string) + length ?r)
            \<and> length (snd (splitByOperatorLoop operator (parts @ [trim current]) [] bracketDepth ?r)) + length operator
                \<le> length ([]::string) + length ?r"
      by blast
    have eq: "splitByOperatorLoop operator parts current bracketDepth (c # cs)
              = splitByOperatorLoop operator (parts @ [trim current]) [] bracketDepth ?r"
      using split 2(5) by simp
    have tc: "length (trim current) + length operator \<le> length current + length (c # cs)"
      using trim_length[of current] len by linarith
    show ?thesis
    proof (intro exI[of _ "trim current # new"] conjI impI)
      show "fst (splitByOperatorLoop operator parts current bracketDepth (c # cs)) = parts @ trim current # new"
        unfolding eq using n(1) by simp
      show "trim current # new \<noteq> []" by simp
      show "snd (splitByOperatorLoop operator parts current bracketDepth (c # cs)) = current @ c # cs"
        if "trim current # new = []"
        using that by simp
      show "\<forall>p \<in> set (trim current # new). length p + length operator \<le> length current + length (c # cs)"
        using n(3) tc lr by (cases "new = []") auto
      show "length (snd (splitByOperatorLoop operator parts current bracketDepth (c # cs))) + length operator
            \<le> length current + length (c # cs)"
        unfolding eq using n(2,3) lr by (cases "new = []") auto
    qed
  next
    case other
    from 2(4)[OF this 2(5)] obtain new where
      n: "fst (splitByOperatorLoop operator parts (current @ [c]) bracketDepth cs) = parts @ new"
        "topLevelOccurs operator bracketDepth cs \<longrightarrow> new \<noteq> []"
        "new = [] \<longrightarrow> snd (splitByOperatorLoop operator parts (current @ [c]) bracketDepth cs) = (current @ [c]) @ cs"
        "new \<noteq> [] \<longrightarrow>
                (\<forall>p \<in> set new. length p + length operator \<le> length (current @ [c]) + length cs)
                \<and> length (snd (splitByOperatorLoop operator parts (current @ [c]) bracketDepth cs)) + length operator
                    \<le> length (current @ [c]) + length cs"
      by blast
    show ?thesis
      using other n 2(5) by (intro exI[of _ new]) auto
  qed
qed

lemma split_parts_shorter:
  assumes "operator \<noteq> []" "topLevelOccurs operator 0 str"
  shows "\<forall>p \<in> set (splitByOperator str operator). length p < length str"
proof -
  obtain parts cur where r: "splitByOperatorLoop operator [] [] 0 str = (parts, cur)"
    by (cases "splitByOperatorLoop operator [] [] 0 str")
  from loop_parts[OF assms(1), of "[]" "[]" 0 str] r assms(2)
  have p: "\<forall>p \<in> set parts. length p + length operator \<le> length str"
    and c: "length cur + length operator \<le> length str"
    by auto
  have o: "Suc 0 \<le> length operator"
    using assms(1) by (cases operator) simp_all
  show ?thesis
  proof
    fix q assume "q \<in> set (splitByOperator str operator)"
    then consider "q \<in> set parts" | "q = trim cur"
      by (auto simp: splitByOperator_def r split: if_splits)
    then show "length q < length str"
    proof cases
      case 1
      with p have "length q + length operator \<le> length str" by blast
      with o show ?thesis by linarith
    next
      case 2
      with c o trim_length[of cur] show ?thesis by simp
    qed
  qed
qed

text \<open>
  C4 amended: the union rule is the second rule, after the test for an expression that
  starts with \<open>[\<close> and ends with \<open>]\<close>. For every expression that has \<open> or \<close> at
  bracket depth zero and is not of that bracketed form, the parser answers the union of the
  parsed parts of the depth-aware split, or the error of the first part whose parse throws;
  and each of these parts is strictly shorter than the expression.
\<close>

theorem union_rule_after_bracket_test:
  assumes "topLevelOccurs '' or '' 0 (trim d)"
    and "startsWith (trim d) ''['' = False \<or> endsWith (trim d) '']'' = False"
  shows "parseRelationDefinition (Suc fuel) d
         = (case mapE (parseRelationDefinition fuel) (splitByOperator (trim d) '' or '') of
              Inl e \<Rightarrow> Inl e
            | Inr cs \<Rightarrow> Inr (unionOf cs))
         \<and> list_all (\<lambda>p. length p < length (trim d)) (splitByOperator (trim d) '' or '')"
proof -
  have "parseRelationDefinition (Suc fuel) d
         = (case mapE (parseRelationDefinition fuel) (splitByOperator (trim d) '' or '') of
              Inl e \<Rightarrow> Inl e
            | Inr cs \<Rightarrow> Inr (unionOf cs))"
    using assms topLevelOccurs_includes[OF assms(1)] by (auto simp: Let_def)
  moreover have "list_all (\<lambda>p. length p < length (trim d)) (splitByOperator (trim d) '' or '')"
    using split_parts_shorter[OF _ assms(1)] by (simp add: list_all_iff)
  ultimately show ?thesis
    by (simp del: parseRelationDefinition.simps)
qed

theorem union_rule_after_bracket_test_witness:
  "parseRelationDefinition (Suc (Suc 0)) ''[user] or owner''
   = Inr (unionOf [thisUserset, computedUserset ''owner''])"
proof -
  have t: "trim ''[user] or owner'' = ''[user] or owner''"
    by (simp add: str_eval)
  have "topLevelOccurs '' or '' 0 (trim ''[user] or owner'')"
    unfolding t by (simp add: startsWith_def)
  moreover have "startsWith (trim ''[user] or owner'') ''['' = False
                 \<or> endsWith (trim ''[user] or owner'') '']'' = False"
    unfolding t by (simp add: endsWith_def)
  ultimately show ?thesis
    using union_rule_after_bracket_test[of "''[user] or owner''" "Suc 0"]
    by (simp add: t split_user_or_owner parse_bracket_user parse_owner
        del: parseRelationDefinition.simps)
qed

section \<open>C2: chained differences\<close>

lemma trim_id:
  assumes "s \<noteq> []" "\<not> isSpace (hd s)" "\<not> isSpace (last s)"
  shows "trim s = s"
proof -
  from assms have a: "dropWhile isSpace s = s" by (cases s) auto
  from assms have b: "dropWhile isSpace (rev s) = rev s"
    by (cases "rev s") (auto simp: last_rev[symmetric] hd_rev)
  show ?thesis by (simp add: trim_def a b)
qed

lemma word_not_space: "isWordChar c \<Longrightarrow> \<not> isSpace c"
  by (auto simp: isWordChar_def isAlpha_def isDigit_def isSpace_def)

lemma trim_word: "isWord w \<Longrightarrow> trim w = w"
  by (rule trim_id) (auto simp: isWord_def list_all_iff word_not_space)

lemma includes_word_prefix:
  assumes "list_all isWordChar a" "p \<noteq> []" "\<not> isWordChar (hd p)"
  shows "includesStr (a @ r) p = includesStr r p"
  using assms
proof (induction a)
  case Nil
  then show ?case by simp
next
  case (Cons x a)
  from Cons.prems have "\<not> startsWith (x # a @ r) p"
    by (cases p) (auto simp: startsWith_def)
  with Cons show ?case by simp
qed

lemma includes_word:
  assumes "list_all isWordChar a" "p \<noteq> []" "\<not> isWordChar (hd p)"
  shows "\<not> includesStr a p"
  using includes_word_prefix[OF assms, of "[]"] assms(2) by simp

lemma splitLoop_word_prefix:
  assumes "list_all isWordChar a" "sep \<noteq> []" "\<not> isWordChar (hd sep)"
  shows "splitLoop sep cur (a @ r) = splitLoop sep (cur @ a) r"
  using assms
proof (induction a arbitrary: cur)
  case Nil
  then show ?case by simp
next
  case (Cons x a)
  from Cons.prems have "\<not> startsWith (x # a @ r) sep"
    by (cases sep) (auto simp: startsWith_def)
  with Cons show ?case by simp
qed

lemma splitLoop_sep:
  assumes "sep \<noteq> []"
  shows "splitLoop sep cur (sep @ r) = cur # splitLoop sep [] r"
  using assms by (cases sep) (auto simp: startsWith_def)

text \<open>A word before a space starts with a word and a space only when the two words are equal.\<close>

lemma word_space_prefix:
  assumes "list_all isWordChar b" "list_all isWordChar w"
  shows "startsWith (b @ CHR '' '' # r) (w @ '' '') = (b = w)"
  using assms
proof (induction b arbitrary: w)
  case Nil
  then show ?case
    by (cases w) (auto simp: startsWith_def isWordChar_def isAlpha_def isDigit_def)
next
  case (Cons x b)
  show ?case
  proof (cases w)
    case Nil
    with Cons.prems show ?thesis
      by (auto simp: startsWith_def isWordChar_def isAlpha_def isDigit_def)
  next
    case (Cons y w')
    with Cons.prems Cons.IH[of w'] show ?thesis
      by (auto simp: startsWith_def)
  qed
qed


lemma word_no_space_prefix:
  assumes "list_all isWordChar c" "CHR '' '' \<in> set p"
  shows "\<not> startsWith c p"
proof
  assume "startsWith c p"
  then have "set p \<subseteq> set c"
    by (metis startsWith_def set_take_subset)
  with assms have "isWordChar (CHR '' '')"
    by (auto simp: list_all_iff)
  then show False
    by (simp add: isWordChar_def isAlpha_def isDigit_def)
qed

lemma includes_but_not:
  assumes "p = '' or '' \<or> p = '' and ''"
  shows "includesStr ('' but not '' @ x) p = (startsWith (CHR '' '' # x) p \<or> includesStr x p)"
  using assms by (auto simp: startsWith_def)

lemma chained_no_operator:
  assumes "isWord a" "isWord b" "isWord c" "isWord w" "b \<noteq> w" "p = '' '' @ w @ '' ''"
    and "p = '' or '' \<or> p = '' and ''"
  shows "\<not> includesStr (a @ '' but not '' @ b @ '' but not '' @ c) p"
proof -
  have np: "p \<noteq> []" "\<not> isWordChar (hd p)"
    using assms(6) by (auto simp: isWordChar_def isAlpha_def isDigit_def)
  have wa: "list_all isWordChar a" and wb: "list_all isWordChar b"
    and wc: "list_all isWordChar c" and ww: "list_all isWordChar w"
    using assms by (auto simp: isWord_def)
  have 1: "\<not> startsWith (CHR '' '' # b @ '' but not '' @ c) p"
    using word_space_prefix[OF wb ww, of "''but not '' @ c"] assms(5,6)
    by (simp add: startsWith_def)
  have 2: "\<not> startsWith (CHR '' '' # c) p"
    using word_no_space_prefix[OF wc, of "w @ '' ''"] assms(6)
    by (simp add: startsWith_def)
  show ?thesis
    unfolding includes_word_prefix[OF wa np] includes_but_not[OF assms(7)]
      includes_word_prefix[OF wb np]
    using 1 2 includes_word[OF wc np] by simp
qed


lemma word_not_bracket: "isWord w \<Longrightarrow> \<not> startsWith (w @ r) ''[''"
  by (cases w) (auto simp: isWord_def startsWith_def isWordChar_def isAlpha_def isDigit_def)

lemma parse_word:
  assumes "isWord w"
  shows "parseRelationDefinition (Suc fuel) w = Inr (computedUserset w)"
proof -
  have ww: "list_all isWordChar w"
    using assms by (simp add: isWord_def)
  have n: "\<not> includesStr w '' or ''" "\<not> includesStr w '' and ''"
    "\<not> includesStr w '' but not ''" "\<not> includesStr w ''->''"
    by (rule includes_word[OF ww]; simp add: isWordChar_def isAlpha_def isDigit_def)+
  show ?thesis
    using n assms word_not_bracket[OF assms, of "[]"]
    by (simp add: trim_word[OF assms])
qed

lemma chained_split:
  assumes "isWord a" "isWord b" "isWord c"
  shows "split (a @ '' but not '' @ b @ '' but not '' @ c) '' but not '' = [a, b, c]"
proof -
  have np: "'' but not '' \<noteq> []" "\<not> isWordChar (hd '' but not '')"
    by (auto simp: isWordChar_def isAlpha_def isDigit_def)
  have wa: "list_all isWordChar a" and wb: "list_all isWordChar b"
    and wc: "list_all isWordChar c"
    using assms by (auto simp: isWord_def)
  have "splitLoop '' but not '' [] (a @ '' but not '' @ b @ '' but not '' @ c) = [a, b, c]"
    unfolding splitLoop_word_prefix[OF wa np] splitLoop_sep[OF np(1)]
      splitLoop_word_prefix[OF wb np]
    using splitLoop_word_prefix[OF wc np, of "[]" "[]"] by simp
  then show ?thesis
    by (simp add: split_def)
qed

lemma chained_includes:
  assumes "isWord a"
  shows "includesStr (a @ '' but not '' @ r) '' but not ''"
proof -
  have np: "'' but not '' \<noteq> []" "\<not> isWordChar (hd '' but not '')"
    by (auto simp: isWordChar_def isAlpha_def isDigit_def)
  have wa: "list_all isWordChar a"
    using assms by (auto simp: isWord_def)
  show ?thesis
    unfolding includes_word_prefix[OF wa np] by (simp add: startsWith_def)
qed

lemma chained_trim:
  assumes "isWord a" "isWord c"
  shows "trim (a @ m @ c) = a @ m @ c"
proof (rule trim_id)
  show "a @ m @ c \<noteq> []" using assms by (simp add: isWord_def)
  show "\<not> isSpace (hd (a @ m @ c))"
    using assms by (cases a) (auto simp: isWord_def word_not_space)
  show "\<not> isSpace (last (a @ m @ c))"
    using assms by (auto simp: isWord_def word_not_space list_all_iff)
qed

text \<open>
  C2, as stated, fails: \<open>split\<close> cuts \<open>a but not b but not c\<close> at both occurrences of
  the operator, and the parser reads the first two pieces only. The subtrahend is the
  computed userset \<open>b\<close>, not the parse of \<open>b but not c\<close>, which is a difference.
\<close>

theorem chained_difference_drops_third:
  "parseRelationDefinition 3 ''a but not b but not c''
     = Inr (differenceOf (computedUserset ''a'') (computedUserset ''b''))
   \<and> parseRelationDefinition 2 ''a'' = Inr (computedUserset ''a'')
   \<and> parseRelationDefinition 2 ''b but not c''
     = Inr (differenceOf (computedUserset ''b'') (computedUserset ''c''))
   \<and> parseRelationDefinition 3 ''a but not b but not c''
     \<noteq> Inr (differenceOf (computedUserset ''a'')
              (differenceOf (computedUserset ''b'') (computedUserset ''c'')))"
  by (simp add: str_eval differenceOf_def computedUserset_def numeral_2_eq_2 numeral_3_eq_3)

text \<open>
  C2 amended: for words \<open>a\<close>, \<open>b\<close> and \<open>c\<close> (\<open>b\<close> neither \<open>or\<close> nor \<open>and\<close>, which
  would make an earlier rule fire), \<open>a but not b but not c\<close> is cut at every occurrence
  of the operator and parses to the difference of the computed usersets \<open>a\<close> and \<open>b\<close>;
  the piece \<open>c\<close> is not read.
\<close>

theorem chained_difference_keeps_two:
  assumes "isWord a" "isWord b" "isWord c" "b \<noteq> ''or''" "b \<noteq> ''and''"
  shows "parseRelationDefinition (Suc (Suc fuel)) (a @ '' but not '' @ b @ '' but not '' @ c)
         = Inr (differenceOf (computedUserset a) (computedUserset b))"
proof -
  define t where "t = a @ '' but not '' @ b @ '' but not '' @ c"
  have t: "trim t = t"
    unfolding t_def
    using chained_trim[OF assms(1,3), of "'' but not '' @ b @ '' but not ''"] by simp
  have nor: "\<not> includesStr t '' or ''"
    unfolding t_def
    by (rule chained_no_operator[OF assms(1,2,3) _ assms(4)])
       (simp_all add: isWord_def isWordChar_def isAlpha_def isDigit_def)
  have nand: "\<not> includesStr t '' and ''"
    unfolding t_def
    by (rule chained_no_operator[OF assms(1,2,3) _ assms(5)])
       (simp_all add: isWord_def isWordChar_def isAlpha_def isDigit_def)
  have nb: "\<not> startsWith t ''[''"
    unfolding t_def by (rule word_not_bracket[OF assms(1)])
  have inc: "includesStr t '' but not ''"
    unfolding t_def by (rule chained_includes[OF assms(1)])
  have sp: "split t '' but not '' = [a, b, c]"
    unfolding t_def by (rule chained_split[OF assms(1,2,3)])
  have "parseRelationDefinition (Suc (Suc fuel)) t
        = Inr (differenceOf (computedUserset a) (computedUserset b))"
    unfolding parseRelationDefinition.simps(2)[of "Suc fuel"] t Let_def
    using nor nand nb inc
    by (simp add: sp parse_word[OF assms(1)] parse_word[OF assms(2)]
        del: parseRelationDefinition.simps)
  then show ?thesis
    unfolding t_def .
qed

theorem chained_difference_keeps_two_witness:
  "parseRelationDefinition (Suc (Suc 0)) ''viewer but not blocked but not banned''
   = Inr (differenceOf (computedUserset ''viewer'') (computedUserset ''blocked''))"
  using chained_difference_keeps_two[of "''viewer''" "''blocked''" "''banned''" 0]
  by (simp add: isWord_def isWordChar_def isAlpha_def isDigit_def)

section \<open>C3: serializing twice\<close>






subsection \<open>Splitting what was joined\<close>







subsection \<open>Type references\<close>

















subsection \<open>Bracket lists\<close>












subsection \<open>Expressions\<close>






lemma bracketMatch_none:
  assumes "CHR ''['' \<notin> set s"
  shows "bracketMatch s = None"
  using assms by (induction s) auto










subsection \<open>Texts without the first character of a separator\<close>





subsection \<open>The texts of operands\<close>











subsection \<open>Leaves\<close>



















subsection \<open>The text of a flat userset\<close>







subsection \<open>Parsing the text of operands\<close>













subsection \<open>The direct types read from an expression\<close>





subsection \<open>One relation\<close>





















subsection \<open>The lines of a type\<close>

















subsection \<open>Type blocks\<close>




lemma parseLoop_one:
  assumes "parseLine maxArguments st l = Inr st'"
  shows "parseLoop maxArguments st (l # ls) = parseLoop maxArguments st' ls"
  using assms by simp





subsection \<open>Conditions\<close>






















subsection \<open>The text of a model\<close>








subsection \<open>Conversion\<close>


















end
